theory Spec2Isabelle
  imports Main "HOL-Library.Word" "HOL-Library.Sublist"
begin

section \<open>JavaScript strings\<close>

text \<open>
  A JavaScript string is a sequence of UTF-16 code units: \<open>length\<close>, \<open>slice\<close> and
  \<open>trim\<close> all work on code units. ASCII text is written with \<open>js\<close>; the three
  non-ASCII characters of \<open>providers.ts\<close> are named constants.
\<close>

type_synonym jschar = "16 word"
type_synonym jsstring = "jschar list"

definition js :: "string \<Rightarrow> jsstring" where
  "js s = map of_char s"

definition times_sign :: jschar where
  "times_sign = 0xD7"

definition middle_dot :: jschar where
  "middle_dot = 0xB7"

definition ellipsis :: jschar where
  "ellipsis = 0x2026"

text \<open>
  \<open>String.prototype.trim\<close> strips the ECMAScript WhiteSpace and LineTerminator code
  points from both ends; all of them are single code units.
\<close>

definition is_ws :: "jschar \<Rightarrow> bool" where
  "is_ws c = (c \<in> set [0x09, 0x0A, 0x0B, 0x0C, 0x0D, 0x20, 0xA0, 0x1680,
                         0x2000, 0x2001, 0x2002, 0x2003, 0x2004, 0x2005, 0x2006,
                         0x2007, 0x2008, 0x2009, 0x200A, 0x2028, 0x2029, 0x202F,
                         0x205F, 0x3000, 0xFEFF])"

definition trim :: "jsstring \<Rightarrow> jsstring" where
  "trim s = rev (dropWhile is_ws (rev (dropWhile is_ws s)))"

text \<open>\<open>s?.trim()\<close> on an optional string; \<open>None\<close> is \<open>undefined\<close>.\<close>

definition trim_opt :: "jsstring option \<Rightarrow> jsstring option" where
  "trim_opt s = map_option trim s"

text \<open>Truthiness of an optional string: \<open>undefined\<close> and \<open>""\<close> are falsy.\<close>

definition truthy :: "jsstring option \<Rightarrow> bool" where
  "truthy s = (case s of None \<Rightarrow> False | Some v \<Rightarrow> v \<noteq> [])"

text \<open>\<open>s?.trim() || ""\<close>.\<close>

definition trim_or_empty :: "jsstring option \<Rightarrow> jsstring" where
  "trim_or_empty s = (case s of None \<Rightarrow> [] | Some v \<Rightarrow> trim v)"

text \<open>A non-negative integer inside a template literal: its decimal digits.\<close>

definition digit :: "nat \<Rightarrow> jschar" where
  "digit d = of_nat (48 + d)"

fun num :: "nat \<Rightarrow> jsstring" where
  "num n = (if n < 10 then [digit n] else num (n div 10) @ [digit (n mod 10)])"

declare num.simps [simp del]

text \<open>\<open>parts.join(sep)\<close>.\<close>

fun join :: "jsstring \<Rightarrow> jsstring list \<Rightarrow> jsstring" where
  "join sep [] = []"
| "join sep [p] = p"
| "join sep (p # q # ps) = p @ sep @ join sep (q # ps)"


section \<open>summarizeSources\<close>

text \<open>
  Lines 44 to 58 of \<open>src/commands/status-all/providers.ts\<close>. A JavaScript \<open>Map\<close> iterates in insertion order and \<open>set\<close> on a key that is
  present keeps its position: an association list with \<open>map_get\<close> and \<open>map_set\<close>.
\<close>

fun map_get :: "(jsstring \<times> nat) list \<Rightarrow> jsstring \<Rightarrow> nat option" where
  "map_get [] k = None"
| "map_get ((k', v) # m) k = (if k' = k then Some v else map_get m k)"

fun map_set :: "(jsstring \<times> nat) list \<Rightarrow> jsstring \<Rightarrow> nat \<Rightarrow> (jsstring \<times> nat) list" where
  "map_set [] k v = [(k, v)]"
| "map_set ((k', v') # m) k v = (if k' = k then (k', v) # m else (k', v') # map_set m k v)"

record SourceSummary =
  label :: jsstring
  parts :: "jsstring list"

text \<open>\<open>const key = s?.trim() ? s.trim() : "unknown"\<close>.\<close>

definition source_key :: "jsstring option \<Rightarrow> jsstring" where
  "source_key s = (if truthy (trim_opt s) then trim_or_empty s else js ''unknown'')"

text \<open>The loop body: \<open>counts.set(key, (counts.get(key) ?? 0) + 1)\<close>.\<close>

definition count_source :: "(jsstring \<times> nat) list \<Rightarrow> jsstring option \<Rightarrow> (jsstring \<times> nat) list" where
  "count_source counts s =
     (let key = source_key s
      in map_set counts key ((case map_get counts key of None \<Rightarrow> 0 | Some n \<Rightarrow> n) + 1))"

text \<open>\<open>`${key}${n > 1 ? `\<times>${n}` : ""}`\<close>.\<close>

definition render_part :: "jsstring \<times> nat \<Rightarrow> jsstring" where
  "render_part e = fst e @ (if snd e > 1 then [times_sign] @ num (snd e) else [])"

text \<open>
  \<open>Array.prototype.sort\<close> is stable; the comparator \<open>b[1] - a[1]\<close> orders by
  descending count, which is ascending order of the negated count.
\<close>

definition summarizeSources :: "jsstring option list \<Rightarrow> SourceSummary" where
  "summarizeSources sources =
     (let counts = foldl count_source [] sources;
          ps = map render_part (sort_key (\<lambda>e. - int (snd e)) counts);
          lbl = (if length ps > 0 then join (js ''+'') ps else js ''unknown'')
      in \<lparr> label = lbl, parts = ps \<rparr>)"


section \<open>existsSyncMaybe\<close>

text \<open>
  Lines 60 to 68. \<open>fs.existsSync\<close> is a parameter: \<open>Some b\<close> is its answer, \<open>None\<close> a thrown
  exception. The result \<open>None\<close> of \<open>existsSyncMaybe\<close> is JavaScript's \<open>null\<close>.
\<close>

definition existsSyncMaybe :: "(jsstring \<Rightarrow> bool option) \<Rightarrow> jsstring option \<Rightarrow> bool option" where
  "existsSyncMaybe existsSync p =
     (let path = trim_or_empty p
      in if path = [] then None
         else (case existsSync path of Some b \<Rightarrow> Some b | None \<Rightarrow> None))"


section \<open>sha256HexPrefix and formatTokenHint\<close>

text \<open>
  Lines 70 to 86. The flag \<open>showSecrets\<close> stands for the object \<open>opts\<close>, whose only
  field it is. The SHA-256 function of \<open>node:crypto\<close> is a parameter \<open>sha\<close> from the string to the
  bytes of its digest; the hexadecimal rendering and the slice are modelled.
\<close>

definition hexdigit :: "nat \<Rightarrow> jschar" where
  "hexdigit d = (if d < 10 then of_nat (48 + d) else of_nat (87 + d))"

definition hex_byte :: "8 word \<Rightarrow> jsstring" where
  "hex_byte b = [hexdigit (unat b div 16), hexdigit (unat b mod 16)]"

definition digest_hex :: "8 word list \<Rightarrow> jsstring" where
  "digest_hex bs = concat (map hex_byte bs)"

definition sha256HexPrefix :: "(jsstring \<Rightarrow> 8 word list) \<Rightarrow> jsstring \<Rightarrow> nat \<Rightarrow> jsstring" where
  "sha256HexPrefix sha v len = take len (digest_hex (sha v))"

definition len_suffix :: "jsstring \<Rightarrow> jsstring" where
  "len_suffix t = js '' '' @ [middle_dot] @ js '' len '' @ num (length t)"

definition formatTokenHint :: "(jsstring \<Rightarrow> 8 word list) \<Rightarrow> jsstring \<Rightarrow> bool \<Rightarrow> jsstring" where
  "formatTokenHint sha token showSecrets =
     (let t = trim token
      in if t = [] then js ''empty''
         else if \<not> showSecrets then js ''sha256:'' @ sha256HexPrefix sha t 8 @ len_suffix t
         else (let head = take 4 t;
                   tail = drop (length t - 4) t
               in if length t \<le> 10 then t @ len_suffix t
                  else head @ [ellipsis] @ tail @ len_suffix t))"


section \<open>The configuration, the accounts and the collaborators\<close>

text \<open>
  \<open>ClawdbotConfig\<close> restricted to the fields that \<open>providers.ts\<close> reads. Every
  section and every field is optional; \<open>None\<close> is \<open>undefined\<close>.
\<close>

record provider_section =
  section_enabled :: "bool option"

record whatsapp_section =
  whatsapp_allowFrom :: "jsstring list option"
  whatsapp_dmPolicy :: "jsstring option"

record telegram_account_section =
  account_tokenFile :: "jsstring option"

record telegram_section =
  telegram_enabled :: "bool option"
  telegram_tokenFile :: "jsstring option"
  telegram_accounts :: "(jsstring \<rightharpoonup> telegram_account_section) option"

record msteams_section =
  msteams_enabled :: "bool option"
  msteams_appId :: "jsstring option"
  msteams_appPassword :: "jsstring option"
  msteams_tenantId :: "jsstring option"

record ClawdbotConfig =
  web :: "provider_section option"
  whatsapp :: "whatsapp_section option"
  telegram :: "telegram_section option"
  discord :: "provider_section option"
  slack :: "provider_section option"
  signal :: "provider_section option"
  imessage :: "provider_section option"
  msteams :: "msteams_section option"

text \<open>The resolved accounts, as the resolvers of the other modules return them.\<close>

record WhatsAppAccount =
  wa_accountId :: jsstring
  wa_name :: "jsstring option"
  wa_enabled :: bool
  wa_selfChatMode :: "bool option"
  wa_allowFrom :: "jsstring list option"
  wa_dmPolicy :: "jsstring option"

record TelegramAccount =
  tg_accountId :: jsstring
  tg_enabled :: bool
  tg_token :: "jsstring option"
  tg_tokenSource :: "jsstring option"

record DiscordAccount =
  dc_accountId :: jsstring
  dc_enabled :: bool
  dc_token :: "jsstring option"
  dc_tokenSource :: "jsstring option"

record SlackAccount =
  sl_accountId :: jsstring
  sl_enabled :: bool
  sl_botToken :: "jsstring option"
  sl_appToken :: "jsstring option"
  sl_botTokenSource :: "jsstring option"
  sl_appTokenSource :: "jsstring option"

record SignalAccount =
  si_accountId :: jsstring
  si_enabled :: bool
  si_configured :: bool
  si_baseUrl :: "jsstring option"

record IMessageAccountConfig =
  im_cliPath :: "jsstring option"
  im_dbPath :: "jsstring option"

record IMessageAccount =
  im_accountId :: jsstring
  im_enabled :: bool
  im_configured :: bool
  im_config :: "IMessageAccountConfig option"

text \<open>
  The imported functions and the two ambient reads (\<open>fs.existsSync\<close>,
  \<open>process.env\<close>) are parameters. \<open>webAuthExists\<close> is \<open>None\<close> when its promise
  rejects; \<open>getWebAuthAgeMs\<close> is a number of milliseconds or \<open>null\<close>;
  \<open>readWebSelfId\<close> is the \<open>e164\<close> field of its result; \<open>resolveWhatsAppAccount\<close>
  takes the optional \<open>accountId\<close>; \<open>resolveMSTeamsCredentials\<close> is the truthiness
  of its result.
\<close>

record collaborators =
  webAuthExists :: "bool option"
  getWebAuthAgeMs :: "int option"
  readWebSelfId :: "jsstring option"
  listWhatsAppAccountIds :: "ClawdbotConfig \<Rightarrow> jsstring list"
  resolveWhatsAppAccount :: "ClawdbotConfig \<Rightarrow> jsstring option \<Rightarrow> WhatsAppAccount"
  normalizeE164 :: "jsstring \<Rightarrow> jsstring"
  formatAge :: "int \<Rightarrow> jsstring"
  listTelegramAccountIds :: "ClawdbotConfig \<Rightarrow> jsstring list"
  resolveTelegramAccount :: "ClawdbotConfig \<Rightarrow> jsstring \<Rightarrow> TelegramAccount"
  listDiscordAccountIds :: "ClawdbotConfig \<Rightarrow> jsstring list"
  resolveDiscordAccount :: "ClawdbotConfig \<Rightarrow> jsstring \<Rightarrow> DiscordAccount"
  listSlackAccountIds :: "ClawdbotConfig \<Rightarrow> jsstring list"
  resolveSlackAccount :: "ClawdbotConfig \<Rightarrow> jsstring \<Rightarrow> SlackAccount"
  listSignalAccountIds :: "ClawdbotConfig \<Rightarrow> jsstring list"
  resolveSignalAccount :: "ClawdbotConfig \<Rightarrow> jsstring \<Rightarrow> SignalAccount"
  listIMessageAccountIds :: "ClawdbotConfig \<Rightarrow> jsstring list"
  resolveIMessageAccount :: "ClawdbotConfig \<Rightarrow> jsstring \<Rightarrow> IMessageAccount"
  resolveMSTeamsCredentials :: "msteams_section option \<Rightarrow> bool"
  existsSync :: "jsstring \<Rightarrow> bool option"
  process_env :: "jsstring \<rightharpoonup> jsstring"
  sha256 :: "jsstring \<Rightarrow> 8 word list"


section \<open>The report\<close>

datatype row_state = St_ok | St_setup | St_warn | St_off

record ProviderRow =
  provider :: jsstring
  enabled :: bool
  state :: row_state
  detail :: jsstring

record DetailTable =
  title :: jsstring
  columns :: "jsstring list"
  table_rows :: "(jsstring \<times> jsstring) list list"

record ProvidersTable =
  rows :: "ProviderRow list"
  details :: "DetailTable list"

text \<open>\<open>x?.enabled !== false\<close>.\<close>

definition not_disabled :: "bool option \<Rightarrow> bool" where
  "not_disabled e = (e \<noteq> Some False)"

text \<open>\<open>xs.length || 1\<close>.\<close>

definition length_or_1 :: "'a list \<Rightarrow> nat" where
  "length_or_1 xs = (if length xs = 0 then 1 else length xs)"

text \<open>\<open>a || b\<close> on optional strings.\<close>

definition or_else :: "jsstring option \<Rightarrow> jsstring option \<Rightarrow> jsstring option" where
  "or_else a b = (if truthy a then a else b)"

text \<open>\<open>${xs[0]}\<close>: an index out of range reads \<open>undefined\<close>.\<close>

definition first_rendered :: "jsstring list \<Rightarrow> jsstring" where
  "first_rendered xs = (case xs of [] \<Rightarrow> js ''undefined'' | x # _ \<Rightarrow> x)"

text \<open>\<open>xs[0] ?? null\<close>.\<close>

definition first_opt :: "'a list \<Rightarrow> 'a option" where
  "first_opt xs = (case xs of [] \<Rightarrow> None | x # _ \<Rightarrow> Some x)"


section \<open>buildProvidersTable\<close>

text \<open>
  Lines 88 to 372. Each \<open>const\<close> of the function body is a definition of the same name,
  over the collaborators \<open>d\<close>, the configuration \<open>cfg\<close> and, where the source reads
  it, the flag \<open>showSecrets\<close>. Each \<open>rows.push\<close> is a definition of one row, and the
  function itself, at the end, lists the seven rows in the order of the pushes.
\<close>

subsection \<open>WhatsApp\<close>

definition waEnabled :: "ClawdbotConfig \<Rightarrow> bool" where
  "waEnabled cfg = not_disabled (Option.bind (web cfg) section_enabled)"

definition waLinked :: "collaborators \<Rightarrow> ClawdbotConfig \<Rightarrow> bool" where
  "waLinked d cfg =
     (if waEnabled cfg then (case webAuthExists d of Some b \<Rightarrow> b | None \<Rightarrow> False) else False)"

definition waAuthAgeMs :: "collaborators \<Rightarrow> ClawdbotConfig \<Rightarrow> int option" where
  "waAuthAgeMs d cfg = (if waLinked d cfg then getWebAuthAgeMs d else None)"

definition waSelf :: "collaborators \<Rightarrow> ClawdbotConfig \<Rightarrow> jsstring option" where
  "waSelf d cfg = (if waLinked d cfg then readWebSelfId d else None)"

definition waAccounts :: "collaborators \<Rightarrow> ClawdbotConfig \<Rightarrow> WhatsAppAccount list" where
  "waAccounts d cfg =
     (if waLinked d cfg
      then map (\<lambda>accountId. resolveWhatsAppAccount d cfg (Some accountId))
             (listWhatsAppAccountIds d cfg)
      else [])"

definition whatsappRow :: "collaborators \<Rightarrow> ClawdbotConfig \<Rightarrow> ProviderRow" where
  "whatsappRow d cfg =
     \<lparr> provider = js ''WhatsApp'',
       enabled = waEnabled cfg,
       state = (if \<not> waEnabled cfg then St_off else if waLinked d cfg then St_ok else St_setup),
       detail =
         (if waEnabled cfg
          then (if waLinked d cfg
                then js ''linked''
                     @ (case waSelf d cfg of
                          None \<Rightarrow> []
                        | Some e164 \<Rightarrow> if e164 \<noteq> [] then js '' '' @ e164 else [])
                     @ (case waAuthAgeMs d cfg of
                          None \<Rightarrow> []
                        | Some ms \<Rightarrow>
                            if ms \<noteq> 0
                            then js '' '' @ [middle_dot] @ js '' auth '' @ formatAge d ms
                            else [])
                     @ js '' '' @ [middle_dot] @ js '' accounts ''
                     @ num (length_or_1 (waAccounts d cfg))
                else js ''not linked (run clawdbot login)'')
          else js ''disabled'') \<rparr>"

definition waAccountRow :: "collaborators \<Rightarrow> ClawdbotConfig \<Rightarrow> WhatsAppAccount \<Rightarrow> (jsstring \<times> jsstring) list" where
  "waAccountRow d cfg account =
     (let allowFrom =
            take 3 (filter (\<lambda>s. s \<noteq> [])
              (map (normalizeE164 d)
                (case wa_allowFrom account of
                   Some xs \<Rightarrow> xs
                 | None \<Rightarrow>
                     (case Option.bind (whatsapp cfg) whatsapp_allowFrom of
                        Some xs \<Rightarrow> xs
                      | None \<Rightarrow> []))));
          dmPolicy =
            (case wa_dmPolicy account of
               Some p \<Rightarrow> p
             | None \<Rightarrow>
                 (case Option.bind (whatsapp cfg) whatsapp_dmPolicy of
                    Some p \<Rightarrow> p
                  | None \<Rightarrow> js ''pairing''));
          notes =
            (if \<not> wa_enabled account then [js ''disabled''] else [])
            @ (if wa_selfChatMode account = Some True then [js ''self-chat''] else [])
            @ [js ''dm:'' @ dmPolicy]
            @ (if length allowFrom \<noteq> 0 then [js ''allow:'' @ join (js '','') allowFrom] else [])
      in [(js ''Account'',
             if truthy (trim_opt (wa_name account))
             then wa_accountId account @ js '' ('' @ trim_or_empty (wa_name account) @ js '')''
             else wa_accountId account),
          (js ''Status'', if wa_enabled account then js ''OK'' else js ''OFF''),
          (js ''Notes'', join (js '' '' @ [middle_dot] @ js '' '') notes)])"

definition whatsappDetails :: "collaborators \<Rightarrow> ClawdbotConfig \<Rightarrow> DetailTable list" where
  "whatsappDetails d cfg =
     (if waLinked d cfg
      then (let waRows =
                  (if length (waAccounts d cfg) > 0 then waAccounts d cfg
                   else [resolveWhatsAppAccount d cfg None])
            in [\<lparr> title = js ''WhatsApp accounts'',
                  columns = [js ''Account'', js ''Status'', js ''Notes''],
                  table_rows = map (waAccountRow d cfg) waRows \<rparr>])
      else [])"

subsection \<open>Telegram\<close>

definition tgEnabled :: "ClawdbotConfig \<Rightarrow> bool" where
  "tgEnabled cfg = not_disabled (Option.bind (telegram cfg) telegram_enabled)"

definition tgAccounts :: "collaborators \<Rightarrow> ClawdbotConfig \<Rightarrow> TelegramAccount list" where
  "tgAccounts d cfg = map (resolveTelegramAccount d cfg) (listTelegramAccountIds d cfg)"

definition tgEnabledAccounts :: "collaborators \<Rightarrow> ClawdbotConfig \<Rightarrow> TelegramAccount list" where
  "tgEnabledAccounts d cfg = filter tg_enabled (tgAccounts d cfg)"

definition tgTokenAccounts :: "collaborators \<Rightarrow> ClawdbotConfig \<Rightarrow> TelegramAccount list" where
  "tgTokenAccounts d cfg = filter (\<lambda>a. truthy (trim_opt (tg_token a))) (tgEnabledAccounts d cfg)"

definition tgSources :: "collaborators \<Rightarrow> ClawdbotConfig \<Rightarrow> SourceSummary" where
  "tgSources d cfg = summarizeSources (map tg_tokenSource (tgTokenAccounts d cfg))"

definition tgSampleToken :: "collaborators \<Rightarrow> ClawdbotConfig \<Rightarrow> jsstring" where
  "tgSampleToken d cfg = trim_or_empty (Option.bind (first_opt (tgTokenAccounts d cfg)) tg_token)"

definition tgTokenHint :: "collaborators \<Rightarrow> ClawdbotConfig \<Rightarrow> bool \<Rightarrow> jsstring" where
  "tgTokenHint d cfg showSecrets =
     (if tgSampleToken d cfg \<noteq> []
      then formatTokenHint (sha256 d) (tgSampleToken d cfg) showSecrets
      else [])"

definition tgGlobalTokenFileExists :: "collaborators \<Rightarrow> ClawdbotConfig \<Rightarrow> bool option" where
  "tgGlobalTokenFileExists d cfg =
     existsSyncMaybe (existsSync d) (Option.bind (telegram cfg) telegram_tokenFile)"

text \<open>One pass of the loop over the account ids, \<open>files\<close> being \<open>tgMissingFiles\<close>.\<close>

definition tgCheckAccount :: "collaborators \<Rightarrow> ClawdbotConfig \<Rightarrow> jsstring list \<Rightarrow> jsstring \<Rightarrow> jsstring list" where
  "tgCheckAccount d cfg files accountId =
     (let tokenFile =
            trim_or_empty
              (Option.bind
                (Option.bind (Option.bind (telegram cfg) telegram_accounts) (\<lambda>m. m accountId))
                account_tokenFile);
          ok = existsSyncMaybe (existsSync d) (Some tokenFile)
      in if tgEnabled cfg \<and> tokenFile \<noteq> [] \<and> ok = Some False
         then files @ [js ''telegram.accounts.'' @ accountId @ js ''.tokenFile'']
         else files)"

definition tgMissingFiles :: "collaborators \<Rightarrow> ClawdbotConfig \<Rightarrow> jsstring list" where
  "tgMissingFiles d cfg =
     foldl (tgCheckAccount d cfg)
       (if tgEnabled cfg
           \<and> truthy (trim_opt (Option.bind (telegram cfg) telegram_tokenFile))
           \<and> tgGlobalTokenFileExists d cfg = Some False
        then [js ''telegram.tokenFile'']
        else [])
       (listTelegramAccountIds d cfg)"

definition tgMisconfigured :: "collaborators \<Rightarrow> ClawdbotConfig \<Rightarrow> bool" where
  "tgMisconfigured d cfg = (length (tgMissingFiles d cfg) > 0)"

definition telegramRow :: "collaborators \<Rightarrow> ClawdbotConfig \<Rightarrow> bool \<Rightarrow> ProviderRow" where
  "telegramRow d cfg showSecrets =
     \<lparr> provider = js ''Telegram'',
       enabled = tgEnabled cfg,
       state =
         (if \<not> tgEnabled cfg then St_off
          else if tgMisconfigured d cfg then St_warn
          else if length (tgTokenAccounts d cfg) > 0 then St_ok
          else St_setup),
       detail =
         (if tgEnabled cfg
          then (if tgMisconfigured d cfg
                then js ''token file missing ('' @ first_rendered (tgMissingFiles d cfg) @ js '')''
                else if length (tgTokenAccounts d cfg) > 0
                then js ''bot token '' @ label (tgSources d cfg)
                     @ (if tgTokenHint d cfg showSecrets \<noteq> []
                        then js '' ('' @ tgTokenHint d cfg showSecrets @ js '')''
                        else [])
                     @ js '' '' @ [middle_dot] @ js '' accounts ''
                     @ num (length (tgTokenAccounts d cfg)) @ js ''/''
                     @ num (length_or_1 (tgEnabledAccounts d cfg))
                else js ''no bot token (TELEGRAM_BOT_TOKEN / telegram.botToken)'')
          else js ''disabled'') \<rparr>"

subsection \<open>Discord\<close>

definition dcEnabled :: "ClawdbotConfig \<Rightarrow> bool" where
  "dcEnabled cfg = not_disabled (Option.bind (discord cfg) section_enabled)"

definition dcAccounts :: "collaborators \<Rightarrow> ClawdbotConfig \<Rightarrow> DiscordAccount list" where
  "dcAccounts d cfg = map (resolveDiscordAccount d cfg) (listDiscordAccountIds d cfg)"

definition dcEnabledAccounts :: "collaborators \<Rightarrow> ClawdbotConfig \<Rightarrow> DiscordAccount list" where
  "dcEnabledAccounts d cfg = filter dc_enabled (dcAccounts d cfg)"

definition dcTokenAccounts :: "collaborators \<Rightarrow> ClawdbotConfig \<Rightarrow> DiscordAccount list" where
  "dcTokenAccounts d cfg = filter (\<lambda>a. truthy (trim_opt (dc_token a))) (dcEnabledAccounts d cfg)"

definition dcSources :: "collaborators \<Rightarrow> ClawdbotConfig \<Rightarrow> SourceSummary" where
  "dcSources d cfg = summarizeSources (map dc_tokenSource (dcTokenAccounts d cfg))"

definition dcSampleToken :: "collaborators \<Rightarrow> ClawdbotConfig \<Rightarrow> jsstring" where
  "dcSampleToken d cfg = trim_or_empty (Option.bind (first_opt (dcTokenAccounts d cfg)) dc_token)"

definition dcTokenHint :: "collaborators \<Rightarrow> ClawdbotConfig \<Rightarrow> bool \<Rightarrow> jsstring" where
  "dcTokenHint d cfg showSecrets =
     (if dcSampleToken d cfg \<noteq> []
      then formatTokenHint (sha256 d) (dcSampleToken d cfg) showSecrets
      else [])"

definition discordRow :: "collaborators \<Rightarrow> ClawdbotConfig \<Rightarrow> bool \<Rightarrow> ProviderRow" where
  "discordRow d cfg showSecrets =
     \<lparr> provider = js ''Discord'',
       enabled = dcEnabled cfg,
       state =
         (if \<not> dcEnabled cfg then St_off
          else if length (dcTokenAccounts d cfg) > 0 then St_ok
          else St_setup),
       detail =
         (if dcEnabled cfg
          then (if length (dcTokenAccounts d cfg) > 0
                then js ''bot token '' @ label (dcSources d cfg)
                     @ (if dcTokenHint d cfg showSecrets \<noteq> []
                        then js '' ('' @ dcTokenHint d cfg showSecrets @ js '')''
                        else [])
                     @ js '' '' @ [middle_dot] @ js '' accounts ''
                     @ num (length (dcTokenAccounts d cfg)) @ js ''/''
                     @ num (length_or_1 (dcEnabledAccounts d cfg))
                else js ''no bot token (DISCORD_BOT_TOKEN / discord.token)'')
          else js ''disabled'') \<rparr>"


subsection \<open>Slack\<close>

definition slEnabled :: "ClawdbotConfig \<Rightarrow> bool" where
  "slEnabled cfg = not_disabled (Option.bind (slack cfg) section_enabled)"

definition slAccounts :: "collaborators \<Rightarrow> ClawdbotConfig \<Rightarrow> SlackAccount list" where
  "slAccounts d cfg = map (resolveSlackAccount d cfg) (listSlackAccountIds d cfg)"

definition slEnabledAccounts :: "collaborators \<Rightarrow> ClawdbotConfig \<Rightarrow> SlackAccount list" where
  "slEnabledAccounts d cfg = filter sl_enabled (slAccounts d cfg)"

definition slReady :: "collaborators \<Rightarrow> ClawdbotConfig \<Rightarrow> SlackAccount list" where
  "slReady d cfg =
     filter (\<lambda>a. truthy (trim_opt (sl_botToken a)) \<and> truthy (trim_opt (sl_appToken a)))
       (slEnabledAccounts d cfg)"

definition slPartial :: "collaborators \<Rightarrow> ClawdbotConfig \<Rightarrow> SlackAccount list" where
  "slPartial d cfg =
     filter (\<lambda>a. (truthy (trim_opt (sl_botToken a)) \<and> \<not> truthy (trim_opt (sl_appToken a)))
                \<or> (\<not> truthy (trim_opt (sl_botToken a)) \<and> truthy (trim_opt (sl_appToken a))))
       (slEnabledAccounts d cfg)"

definition slHasAnyToken :: "collaborators \<Rightarrow> ClawdbotConfig \<Rightarrow> bool" where
  "slHasAnyToken d cfg =
     list_ex (\<lambda>a. truthy (trim_opt (sl_botToken a)) \<or> truthy (trim_opt (sl_appToken a)))
       (slEnabledAccounts d cfg)"

text \<open>\<open>a.botTokenSource ?? "none"\<close>.\<close>

definition or_none :: "jsstring option \<Rightarrow> jsstring" where
  "or_none s = (case s of None \<Rightarrow> js ''none'' | Some v \<Rightarrow> v)"

definition slBotSources :: "collaborators \<Rightarrow> ClawdbotConfig \<Rightarrow> SourceSummary" where
  "slBotSources d cfg =
     summarizeSources (map (\<lambda>a. Some (or_none (sl_botTokenSource a))) (slReady d cfg))"

definition slAppSources :: "collaborators \<Rightarrow> ClawdbotConfig \<Rightarrow> SourceSummary" where
  "slAppSources d cfg =
     summarizeSources (map (\<lambda>a. Some (or_none (sl_appTokenSource a))) (slReady d cfg))"

definition slSample :: "collaborators \<Rightarrow> ClawdbotConfig \<Rightarrow> SlackAccount option" where
  "slSample d cfg = first_opt (slReady d cfg)"

definition slBotHint :: "collaborators \<Rightarrow> ClawdbotConfig \<Rightarrow> bool \<Rightarrow> jsstring" where
  "slBotHint d cfg showSecrets =
     (case slSample d cfg of
        None \<Rightarrow> []
      | Some a \<Rightarrow>
          (case sl_botToken a of
             None \<Rightarrow> []
           | Some botToken \<Rightarrow>
               if trim botToken \<noteq> [] \<and> sl_botTokenSource a \<noteq> Some (js ''none'')
               then formatTokenHint (sha256 d) botToken showSecrets
               else []))"

definition slAppHint :: "collaborators \<Rightarrow> ClawdbotConfig \<Rightarrow> bool \<Rightarrow> jsstring" where
  "slAppHint d cfg showSecrets =
     (case slSample d cfg of
        None \<Rightarrow> []
      | Some a \<Rightarrow>
          (case sl_appToken a of
             None \<Rightarrow> []
           | Some appToken \<Rightarrow>
               if trim appToken \<noteq> [] \<and> sl_appTokenSource a \<noteq> Some (js ''none'')
               then formatTokenHint (sha256 d) appToken showSecrets
               else []))"

definition slackRow :: "collaborators \<Rightarrow> ClawdbotConfig \<Rightarrow> bool \<Rightarrow> ProviderRow" where
  "slackRow d cfg showSecrets =
     \<lparr> provider = js ''Slack'',
       enabled = slEnabled cfg,
       state =
         (if \<not> slEnabled cfg then St_off
          else if length (slPartial d cfg) > 0 then St_warn
          else if length (slReady d cfg) > 0 then St_ok
          else St_setup),
       detail =
         (if slEnabled cfg
          then (if length (slPartial d cfg) > 0
                then js ''partial tokens (need bot+app) '' @ [middle_dot] @ js '' accounts ''
                     @ num (length (slPartial d cfg))
                else if length (slReady d cfg) > 0
                then js ''tokens ok (bot '' @ label (slBotSources d cfg)
                     @ (if slBotHint d cfg showSecrets \<noteq> []
                        then js '' '' @ slBotHint d cfg showSecrets else [])
                     @ js '', app '' @ label (slAppSources d cfg)
                     @ (if slAppHint d cfg showSecrets \<noteq> []
                        then js '' '' @ slAppHint d cfg showSecrets else [])
                     @ js '') '' @ [middle_dot] @ js '' accounts ''
                     @ num (length (slReady d cfg)) @ js ''/''
                     @ num (length_or_1 (slEnabledAccounts d cfg))
                else if slHasAnyToken d cfg
                then js ''tokens incomplete (need bot+app)''
                else js ''no tokens (SLACK_BOT_TOKEN + SLACK_APP_TOKEN)'')
          else js ''disabled'') \<rparr>"

subsection \<open>Signal\<close>

definition siEnabled :: "ClawdbotConfig \<Rightarrow> bool" where
  "siEnabled cfg = not_disabled (Option.bind (signal cfg) section_enabled)"

definition siAccounts :: "collaborators \<Rightarrow> ClawdbotConfig \<Rightarrow> SignalAccount list" where
  "siAccounts d cfg = map (resolveSignalAccount d cfg) (listSignalAccountIds d cfg)"

definition siEnabledAccounts :: "collaborators \<Rightarrow> ClawdbotConfig \<Rightarrow> SignalAccount list" where
  "siEnabledAccounts d cfg = filter si_enabled (siAccounts d cfg)"

definition siConfiguredAccounts :: "collaborators \<Rightarrow> ClawdbotConfig \<Rightarrow> SignalAccount list" where
  "siConfiguredAccounts d cfg = filter si_configured (siEnabledAccounts d cfg)"

definition siSample :: "collaborators \<Rightarrow> ClawdbotConfig \<Rightarrow> SignalAccount option" where
  "siSample d cfg =
     (case first_opt (siConfiguredAccounts d cfg) of
        Some a \<Rightarrow> Some a
      | None \<Rightarrow> first_opt (siEnabledAccounts d cfg))"

definition siBaseUrl :: "collaborators \<Rightarrow> ClawdbotConfig \<Rightarrow> jsstring" where
  "siBaseUrl d cfg =
     (if truthy (trim_opt (Option.bind (siSample d cfg) si_baseUrl))
      then trim_or_empty (Option.bind (siSample d cfg) si_baseUrl)
      else [])"

definition signalRow :: "collaborators \<Rightarrow> ClawdbotConfig \<Rightarrow> ProviderRow" where
  "signalRow d cfg =
     \<lparr> provider = js ''Signal'',
       enabled = siEnabled cfg,
       state =
         (if \<not> siEnabled cfg then St_off
          else if length (siConfiguredAccounts d cfg) > 0 then St_ok
          else St_setup),
       detail =
         (if siEnabled cfg
          then (if length (siConfiguredAccounts d cfg) > 0
                then js ''configured''
                     @ (if siBaseUrl d cfg \<noteq> []
                        then js '' '' @ [middle_dot] @ js '' baseUrl '' @ siBaseUrl d cfg
                        else [])
                     @ js '' '' @ [middle_dot] @ js '' accounts ''
                     @ num (length (siConfiguredAccounts d cfg)) @ js ''/''
                     @ num (length_or_1 (siEnabledAccounts d cfg))
                else js ''default config (no overrides)'')
          else js ''disabled'') \<rparr>"

subsection \<open>iMessage\<close>

definition imEnabled :: "ClawdbotConfig \<Rightarrow> bool" where
  "imEnabled cfg = not_disabled (Option.bind (imessage cfg) section_enabled)"

definition imAccounts :: "collaborators \<Rightarrow> ClawdbotConfig \<Rightarrow> IMessageAccount list" where
  "imAccounts d cfg = map (resolveIMessageAccount d cfg) (listIMessageAccountIds d cfg)"

definition imEnabledAccounts :: "collaborators \<Rightarrow> ClawdbotConfig \<Rightarrow> IMessageAccount list" where
  "imEnabledAccounts d cfg = filter im_enabled (imAccounts d cfg)"

definition imConfiguredAccounts :: "collaborators \<Rightarrow> ClawdbotConfig \<Rightarrow> IMessageAccount list" where
  "imConfiguredAccounts d cfg = filter im_configured (imEnabledAccounts d cfg)"

definition imSample :: "collaborators \<Rightarrow> ClawdbotConfig \<Rightarrow> IMessageAccount option" where
  "imSample d cfg = first_opt (imEnabledAccounts d cfg)"

definition imCliPath :: "collaborators \<Rightarrow> ClawdbotConfig \<Rightarrow> jsstring" where
  "imCliPath d cfg =
     trim_or_empty (Option.bind (Option.bind (imSample d cfg) im_config) im_cliPath)"

definition imDbPath :: "collaborators \<Rightarrow> ClawdbotConfig \<Rightarrow> jsstring" where
  "imDbPath d cfg =
     trim_or_empty (Option.bind (Option.bind (imSample d cfg) im_config) im_dbPath)"

definition imessageRow :: "collaborators \<Rightarrow> ClawdbotConfig \<Rightarrow> ProviderRow" where
  "imessageRow d cfg =
     \<lparr> provider = js ''iMessage'',
       enabled = imEnabled cfg,
       state =
         (if \<not> imEnabled cfg then St_off
          else if length (imConfiguredAccounts d cfg) > 0 then St_ok
          else St_setup),
       detail =
         (if imEnabled cfg
          then (if length (imConfiguredAccounts d cfg) > 0
                then js ''configured''
                     @ (if imCliPath d cfg \<noteq> []
                        then js '' '' @ [middle_dot] @ js '' cliPath '' @ imCliPath d cfg
                        else [])
                     @ (if imDbPath d cfg \<noteq> []
                        then js '' '' @ [middle_dot] @ js '' dbPath '' @ imDbPath d cfg
                        else [])
                     @ js '' '' @ [middle_dot] @ js '' accounts ''
                     @ num (length (imConfiguredAccounts d cfg)) @ js ''/''
                     @ num (length_or_1 (imEnabledAccounts d cfg))
                else js ''default config (no overrides)'')
          else js ''disabled'') \<rparr>"

subsection \<open>MS Teams\<close>

definition msEnabled :: "ClawdbotConfig \<Rightarrow> bool" where
  "msEnabled cfg = not_disabled (Option.bind (msteams cfg) msteams_enabled)"

definition msCreds :: "collaborators \<Rightarrow> ClawdbotConfig \<Rightarrow> bool" where
  "msCreds d cfg = resolveMSTeamsCredentials d (msteams cfg)"

definition msAppId :: "collaborators \<Rightarrow> ClawdbotConfig \<Rightarrow> jsstring option" where
  "msAppId d cfg =
     or_else (trim_opt (Option.bind (msteams cfg) msteams_appId))
             (trim_opt (process_env d (js ''MSTEAMS_APP_ID'')))"

definition msAppPassword :: "collaborators \<Rightarrow> ClawdbotConfig \<Rightarrow> jsstring option" where
  "msAppPassword d cfg =
     or_else (trim_opt (Option.bind (msteams cfg) msteams_appPassword))
             (trim_opt (process_env d (js ''MSTEAMS_APP_PASSWORD'')))"

definition msTenantId :: "collaborators \<Rightarrow> ClawdbotConfig \<Rightarrow> jsstring option" where
  "msTenantId d cfg =
     or_else (trim_opt (Option.bind (msteams cfg) msteams_tenantId))
             (trim_opt (process_env d (js ''MSTEAMS_TENANT_ID'')))"

definition msMissing :: "collaborators \<Rightarrow> ClawdbotConfig \<Rightarrow> jsstring list" where
  "msMissing d cfg =
     (if \<not> truthy (msAppId d cfg) then [js ''appId''] else [])
     @ (if \<not> truthy (msAppPassword d cfg) then [js ''appPassword''] else [])
     @ (if \<not> truthy (msTenantId d cfg) then [js ''tenantId''] else [])"

definition msAnyPresent :: "collaborators \<Rightarrow> ClawdbotConfig \<Rightarrow> bool" where
  "msAnyPresent d cfg =
     (truthy (msAppId d cfg) \<or> truthy (msAppPassword d cfg) \<or> truthy (msTenantId d cfg))"

definition msPasswordHint :: "collaborators \<Rightarrow> ClawdbotConfig \<Rightarrow> bool \<Rightarrow> jsstring" where
  "msPasswordHint d cfg showSecrets =
     (case msAppPassword d cfg of
        None \<Rightarrow> []
      | Some pw \<Rightarrow> if pw \<noteq> [] then formatTokenHint (sha256 d) pw showSecrets else [])"

definition msteamsRow :: "collaborators \<Rightarrow> ClawdbotConfig \<Rightarrow> bool \<Rightarrow> ProviderRow" where
  "msteamsRow d cfg showSecrets =
     \<lparr> provider = js ''MS Teams'',
       enabled = msEnabled cfg,
       state =
         (if \<not> msEnabled cfg then St_off
          else if msCreds d cfg then St_ok
          else if msAnyPresent d cfg then St_warn
          else St_setup),
       detail =
         (if msEnabled cfg
          then (if msCreds d cfg
                then js ''credentials set''
                     @ (if msPasswordHint d cfg showSecrets \<noteq> []
                        then js '' (password '' @ msPasswordHint d cfg showSecrets @ js '')''
                        else [])
                else if msAnyPresent d cfg
                then js ''credentials incomplete (missing ''
                     @ join (js '', '') (msMissing d cfg) @ js '')''
                else js ''no credentials (MSTEAMS_APP_ID / _PASSWORD / _TENANT_ID)'')
          else js ''disabled'') \<rparr>"

subsection \<open>The whole table\<close>

record BuildOptions =
  opt_showSecrets :: "bool option"

definition buildProvidersTable :: "collaborators \<Rightarrow> ClawdbotConfig \<Rightarrow> BuildOptions option \<Rightarrow> ProvidersTable" where
  "buildProvidersTable d cfg opts =
     (let showSecrets = (Option.bind opts opt_showSecrets = Some True)
      in \<lparr> rows = [whatsappRow d cfg,
                   telegramRow d cfg showSecrets,
                   discordRow d cfg showSecrets,
                   slackRow d cfg showSecrets,
                   signalRow d cfg,
                   imessageRow d cfg,
                   msteamsRow d cfg showSecrets],
           details = whatsappDetails d cfg \<rparr>)"

text \<open>
  Modelled from the spec: \<open>resolveMSTeamsCredentials\<close> is defined in
  \<open>msteams/token.ts\<close>, which is not among the sources. The specification describes it as
  a credential-presence probe that reports "fully configured" when app id, app password
  and tenant id are all present, consulting the configuration first and the environment
  variables \<open>MSTEAMS_APP_ID\<close>, \<open>MSTEAMS_APP_PASSWORD\<close>, \<open>MSTEAMS_TENANT_ID\<close> as fallback.
\<close>

definition resolveMSTeamsCredentials_spec :: "(jsstring \<rightharpoonup> jsstring) \<Rightarrow> msteams_section option \<Rightarrow> bool" where
  "resolveMSTeamsCredentials_spec env ms =
     (truthy (or_else (trim_opt (Option.bind ms msteams_appId))
                      (trim_opt (env (js ''MSTEAMS_APP_ID''))))
      \<and> truthy (or_else (trim_opt (Option.bind ms msteams_appPassword))
                        (trim_opt (env (js ''MSTEAMS_APP_PASSWORD''))))
      \<and> truthy (or_else (trim_opt (Option.bind ms msteams_tenantId))
                        (trim_opt (env (js ''MSTEAMS_TENANT_ID'')))))"


section \<open>Concrete inputs\<close>

text \<open>
  \<open>node_sha256\<close> agrees with SHA-256 on the strings tabulated here, which are the only
  ones hashed in the examples below; elsewhere it returns thirty-two zero bytes.
\<close>

definition node_sha256 :: "jsstring \<Rightarrow> 8 word list" where
  "node_sha256 v =
     (if v = js ''token-sha256-2024'' then
        [0xcd, 0x02, 0xad, 0x6e, 0xdb, 0x3c, 0x64, 0x99, 0x3f, 0xe7, 0xd7, 0x34, 0x01, 0x03,
         0xf0, 0xc2, 0x75, 0x43, 0xd6, 0x4f, 0xc6, 0x25, 0xd4, 0x4b, 0xe0, 0x4f, 0xec, 0xb3,
         0x31, 0xa5, 0x63, 0x91]
      else if v = js ''123456:ABCDEF'' then
        [0x37, 0x8e, 0x4f, 0x18, 0x7a, 0x77, 0x58, 0x46, 0x4d, 0x8f, 0x3d, 0x52, 0x0d, 0x10,
         0x06, 0xb2, 0x0d, 0x0b, 0xe4, 0xc3, 0x63, 0x56, 0x45, 0x0b, 0x51, 0x29, 0xb2, 0xf4,
         0x45, 0xec, 0x5f, 0x26]
      else if v = js ''discord-token-1234'' then
        [0xc4, 0x2f, 0x77, 0x55, 0xc7, 0xa0, 0x52, 0x1f, 0xe2, 0x6e, 0xc1, 0x3a, 0x61, 0x8f,
         0x3d, 0xee, 0x41, 0xed, 0x4f, 0xc7, 0xdb, 0x7a, 0x61, 0xdf, 0x5f, 0xa7, 0xc9, 0xcb,
         0xee, 0x4c, 0x58, 0x80]
      else if v = js ''xoxb-1'' then
        [0x4c, 0xf3, 0x46, 0x3f, 0xc5, 0xd8, 0x9e, 0x90, 0x4a, 0x39, 0x18, 0xbe, 0x2c, 0xae,
         0x6e, 0x2b, 0xc4, 0x07, 0x10, 0x3d, 0x12, 0x08, 0x84, 0x14, 0xb1, 0x33, 0xb4, 0xee,
         0x53, 0xb8, 0x2f, 0xe0]
      else if v = js ''xapp-1'' then
        [0x2f, 0x6e, 0x4f, 0xd5, 0x5d, 0x47, 0x83, 0xfe, 0x8f, 0x63, 0xf3, 0x3c, 0xa0, 0xaa,
         0xdf, 0xa9, 0xa9, 0xfb, 0x0a, 0xd4, 0xfc, 0x58, 0x6c, 0xa7, 0x57, 0xc4, 0xe7, 0xf5,
         0xdc, 0x93, 0xf7, 0x1d]
      else replicate 32 0)"

text \<open>
  A gateway with one account per provider, every one of them enabled and configured; no
  file exists and the environment is empty. \<open>normalizeE164\<close> and \<open>formatAge\<close> are
  stand-ins (the identity, and whole minutes), and \<open>resolveMSTeamsCredentials\<close> is the
  probe of the specification.
\<close>

definition demo_deps :: collaborators where
  "demo_deps =
     \<lparr> webAuthExists = Some True,
       getWebAuthAgeMs = Some 120000,
       readWebSelfId = Some (js ''+15550001111''),
       listWhatsAppAccountIds = (\<lambda>cfg. [js ''default'']),
       resolveWhatsAppAccount = (\<lambda>cfg accountId.
          \<lparr> wa_accountId = (case accountId of Some i \<Rightarrow> i | None \<Rightarrow> js ''default''),
            wa_name = None, wa_enabled = True, wa_selfChatMode = None,
            wa_allowFrom = None, wa_dmPolicy = None \<rparr>),
       normalizeE164 = (\<lambda>s. s),
       formatAge = (\<lambda>ms. num (nat (ms div 60000)) @ js ''m''),
       listTelegramAccountIds = (\<lambda>cfg. [js ''default'']),
       resolveTelegramAccount = (\<lambda>cfg i.
          \<lparr> tg_accountId = i, tg_enabled = True,
            tg_token = Some (js ''123456:ABCDEF''), tg_tokenSource = Some (js ''env'') \<rparr>),
       listDiscordAccountIds = (\<lambda>cfg. [js ''default'']),
       resolveDiscordAccount = (\<lambda>cfg i.
          \<lparr> dc_accountId = i, dc_enabled = True,
            dc_token = Some (js ''discord-token-1234''), dc_tokenSource = Some (js ''config'') \<rparr>),
       listSlackAccountIds = (\<lambda>cfg. [js ''default'']),
       resolveSlackAccount = (\<lambda>cfg i.
          \<lparr> sl_accountId = i, sl_enabled = True,
            sl_botToken = Some (js ''xoxb-1''), sl_appToken = Some (js ''xapp-1''),
            sl_botTokenSource = None, sl_appTokenSource = Some (js ''none'') \<rparr>),
       listSignalAccountIds = (\<lambda>cfg. [js ''default'']),
       resolveSignalAccount = (\<lambda>cfg i.
          \<lparr> si_accountId = i, si_enabled = True, si_configured = True,
            si_baseUrl = Some (js ''http://127.0.0.1:8080'') \<rparr>),
       listIMessageAccountIds = (\<lambda>cfg. [js ''default'']),
       resolveIMessageAccount = (\<lambda>cfg i.
          \<lparr> im_accountId = i, im_enabled = True, im_configured = True,
            im_config = Some \<lparr> im_cliPath = Some (js ''imsg''),
                               im_dbPath = Some (js ''/data/0/chat.db'') \<rparr> \<rparr>),
       resolveMSTeamsCredentials = resolveMSTeamsCredentials_spec Map.empty,
       existsSync = (\<lambda>p. Some False),
       process_env = Map.empty,
       sha256 = node_sha256 \<rparr>"

text \<open>The empty configuration: nothing is disabled, nothing is declared.\<close>

definition demo_cfg :: ClawdbotConfig where
  "demo_cfg =
     \<lparr> web = None, whatsapp = None, telegram = None, discord = None, slack = None,
       signal = None, imessage = None, msteams = None \<rparr>"

text \<open>The same configuration with the WhatsApp web session switched off.\<close>

definition cfg_web_off :: ClawdbotConfig where
  "cfg_web_off = demo_cfg \<lparr> web := Some \<lparr> section_enabled = Some False \<rparr> \<rparr>"

text \<open>
  A configuration with three inconsistencies: a global Telegram token file that does not
  exist, a Slack account \<open>b\<close> with a bot token and no app token next to a complete
  account \<open>a\<close>, and an MS Teams section with an app id only.
\<close>

definition cfg_warn :: ClawdbotConfig where
  "cfg_warn =
     demo_cfg
       \<lparr> telegram := Some \<lparr> telegram_enabled = Some True,
                            telegram_tokenFile = Some (js ''/run/secrets/telegram''),
                            telegram_accounts = None \<rparr>,
         msteams := Some \<lparr> msteams_enabled = None,
                           msteams_appId = Some (js ''app-1''),
                           msteams_appPassword = None,
                           msteams_tenantId = None \<rparr> \<rparr>"

definition deps_warn :: collaborators where
  "deps_warn =
     demo_deps
       \<lparr> listSlackAccountIds := (\<lambda>cfg. [js ''a'', js ''b'']),
         resolveSlackAccount := (\<lambda>cfg i.
            \<lparr> sl_accountId = i, sl_enabled = True,
              sl_botToken = Some (js ''xoxb-1''),
              sl_appToken = (if i = js ''a'' then Some (js ''xapp-1'') else None),
              sl_botTokenSource = Some (js ''config''),
              sl_appTokenSource = (if i = js ''a'' then Some (js ''config'') else None) \<rparr>) \<rparr>"

text \<open>
  Telegram with a single account \<open>work\<close> that is disabled and whose own token file does
  not exist.
\<close>

definition cfg_tg_disabled_account :: ClawdbotConfig where
  "cfg_tg_disabled_account =
     demo_cfg
       \<lparr> telegram := Some \<lparr> telegram_enabled = None,
                            telegram_tokenFile = None,
                            telegram_accounts =
                              Some [js ''work'' \<mapsto>
                                     \<lparr> account_tokenFile = Some (js ''/missing.token'') \<rparr>] \<rparr> \<rparr>"

definition deps_tg_disabled_account :: collaborators where
  "deps_tg_disabled_account =
     demo_deps
       \<lparr> listTelegramAccountIds := (\<lambda>cfg. [js ''work'']),
         resolveTelegramAccount := (\<lambda>cfg i.
            \<lparr> tg_accountId = i, tg_enabled = False,
              tg_token = None, tg_tokenSource = Some (js ''none'') \<rparr>) \<rparr>"


text \<open>
  Two ready Slack accounts: \<open>a\<close> has no bot source tag and the app source tag \<open>none\<close>,
  \<open>b\<close> has the bot source tag \<open>none\<close> and no app source tag.
\<close>

definition deps_slack_sources :: collaborators where
  "deps_slack_sources =
     demo_deps
       \<lparr> listSlackAccountIds := (\<lambda>cfg. [js ''a'', js ''b'']),
         resolveSlackAccount := (\<lambda>cfg i.
            \<lparr> sl_accountId = i, sl_enabled = True,
              sl_botToken = Some (js ''xoxb-1''),
              sl_appToken = Some (js ''xapp-1''),
              sl_botTokenSource = (if i = js ''a'' then None else Some (js ''none'')),
              sl_appTokenSource = (if i = js ''a'' then Some (js ''none'') else None) \<rparr>) \<rparr>"

text \<open>
  Slack with a single account \<open>b\<close> that is disabled and has a bot token and no app
  token.
\<close>

definition deps_slack_disabled_partial :: collaborators where
  "deps_slack_disabled_partial =
     demo_deps
       \<lparr> listSlackAccountIds := (\<lambda>cfg. [js ''b'']),
         resolveSlackAccount := (\<lambda>cfg i.
            \<lparr> sl_accountId = i, sl_enabled = False,
              sl_botToken = Some (js ''xoxb-1''), sl_appToken = None,
              sl_botTokenSource = Some (js ''config''), sl_appTokenSource = None \<rparr>) \<rparr>"

section \<open>Vocabulary of the properties\<close>

text \<open>
  Every character that a masked hint can contain: the characters of the fixed text
  \<open>sha256:\<close> and \<open>len\<close> with its blanks and the middle dot, the lower-case hexadecimal
  digits of the digest and the decimal digits of the length.
\<close>

definition fingerprint_chars :: "jschar set" where
  "fingerprint_chars = set (js ''sha256: len0123456789abcdef'') \<union> {middle_dot}"


text \<open>The lower-case hexadecimal digits.\<close>

definition hex_chars :: "jschar set" where
  "hex_chars = set (js ''0123456789abcdef'')"

text \<open>
  The windows of \<open>n\<close> consecutive characters of a string, from left to right, and the
  strings of which every window of four characters has a character outside the
  fingerprint alphabet.
\<close>

definition windows :: "nat \<Rightarrow> jsstring \<Rightarrow> jsstring list" where
  "windows n xs = map (\<lambda>i. take n (drop i xs)) [0..<Suc (length xs) - n]"

definition foreign_windows :: "jsstring \<Rightarrow> bool" where
  "foreign_windows x = list_all (\<lambda>w. \<not> set w \<subseteq> fingerprint_chars) (windows 4 x)"


section \<open>Evaluating strings\<close>

lemmas string_defs =
  js_def times_sign_def middle_dot_def ellipsis_def is_ws_def trim_def trim_opt_def
  truthy_def trim_or_empty_def digit_def num.simps


section \<open>Characters of the rendered texts\<close>


lemma digit_in_fingerprint: "d < 10 \<Longrightarrow> digit d \<in> fingerprint_chars"
proof -
  have "\<forall>k \<in> set [0..<10]. digit k \<in> fingerprint_chars"
    by (simp add: upt_rec digit_def fingerprint_chars_def js_def)
  moreover assume "d < 10"
  ultimately show ?thesis by simp
qed

lemma hexdigit_in_fingerprint: "d < 16 \<Longrightarrow> hexdigit d \<in> fingerprint_chars"
proof -
  have "\<forall>k \<in> set [0..<16]. hexdigit k \<in> fingerprint_chars"
    by (simp add: upt_rec hexdigit_def fingerprint_chars_def js_def)
  moreover assume "d < 16"
  ultimately show ?thesis by simp
qed

lemma set_num_fingerprint: "set (num n) \<subseteq> fingerprint_chars"
proof (induction n rule: num.induct)
  case (1 n)
  show ?case
  proof (cases "n < 10")
    case True
    then show ?thesis by (subst num.simps) (simp add: digit_in_fingerprint)
  next
    case False
    with 1 show ?thesis by (subst num.simps) (simp add: digit_in_fingerprint)
  qed
qed

lemma set_hex_byte_fingerprint: "set (hex_byte b) \<subseteq> fingerprint_chars"
proof -
  have "unat b < 256" using unsigned_less [of b] by simp
  then have "unat b div 16 < 16" by simp
  then show ?thesis by (simp add: hex_byte_def hexdigit_in_fingerprint)
qed

lemma set_sha256HexPrefix_fingerprint: "set (sha256HexPrefix sha v len) \<subseteq> fingerprint_chars"
proof -
  have "set (digest_hex (sha v)) \<subseteq> fingerprint_chars"
    using set_hex_byte_fingerprint by (auto simp: digest_hex_def)
  moreover have "set (take len (digest_hex (sha v))) \<subseteq> set (digest_hex (sha v))"
    by (rule set_take_subset)
  ultimately show ?thesis by (simp add: sha256HexPrefix_def)
qed

lemma set_len_suffix_fingerprint: "set (len_suffix t) \<subseteq> fingerprint_chars"
  using set_num_fingerprint [of "length t"]
  by (simp add: len_suffix_def) (simp add: fingerprint_chars_def js_def)

lemma set_masked_hint_fingerprint:
  "trim x \<noteq> [] \<Longrightarrow> set (formatTokenHint sha x False) \<subseteq> fingerprint_chars"
  using set_sha256HexPrefix_fingerprint [of sha "trim x" 8] set_len_suffix_fingerprint [of "trim x"]
  by (simp add: formatTokenHint_def Let_def) (simp add: fingerprint_chars_def js_def)


section \<open>The masked hint and the substrings of the secret\<close>

text \<open>
  Claim C3, as stated, fails. The masked hint of the 17-character secret
  \<open>token-sha256-2024\<close> is \<open>sha256:cd02ad6e \<cdot> len 17\<close>: it begins with the fixed text
  \<open>sha256\<close>, which is a 6-character substring of the secret.
\<close>

theorem masked_hint_leaks_counterexample:
  "trim (js ''token-sha256-2024'') \<noteq> []
   \<and> sublist (js ''sha256'') (js ''token-sha256-2024'')
   \<and> 4 \<le> length (js ''sha256'')
   \<and> sublist (js ''sha256'') (formatTokenHint node_sha256 (js ''token-sha256-2024'') False)"
  by (simp add: formatTokenHint_def string_defs len_suffix_def Let_def sublist_code(3))

lemma hexdigit_in_hex: "d < 16 \<Longrightarrow> hexdigit d \<in> hex_chars"
proof -
  have "\<forall>k \<in> set [0..<16]. hexdigit k \<in> hex_chars"
    by (simp add: upt_rec hexdigit_def hex_chars_def js_def)
  moreover assume "d < 16"
  ultimately show ?thesis by simp
qed

lemma set_hex_byte: "set (hex_byte b) \<subseteq> hex_chars"
proof -
  have "unat b < 256" using unsigned_less [of b] by simp
  then have "unat b div 16 < 16" by simp
  then show ?thesis by (simp add: hex_byte_def hexdigit_in_hex)
qed

lemma set_digest_hex: "set (digest_hex bs) \<subseteq> hex_chars"
  using set_hex_byte by (auto simp: digest_hex_def)

lemma length_digest_hex: "length (digest_hex bs) = 2 * length bs"
  by (induction bs) (simp_all add: digest_hex_def hex_byte_def)

lemma masked_hint_format:
  assumes "trim x \<noteq> []"
  shows "formatTokenHint sha x False
           = js ''sha256:'' @ take 8 (digest_hex (sha (trim x)))
             @ js '' '' @ [middle_dot] @ js '' len '' @ num (length (trim x))"
  using assms by (simp add: formatTokenHint_def sha256HexPrefix_def len_suffix_def Let_def)

lemma window_of_sublist:
  assumes "sublist s x" and "4 \<le> length s"
  shows "take 4 s \<in> set (windows 4 x)"
proof -
  from assms(1) obtain ps ss where x: "x = ps @ s @ ss"
    by (auto simp: sublist_def)
  with assms(2) have "take 4 (drop (length ps) x) = take 4 s"
    by simp
  moreover from x assms(2) have "length ps < Suc (length x) - 4"
    by simp
  ultimately show ?thesis
    unfolding windows_def by (metis (no_types, lifting) atLeastLessThan_iff image_eqI le0 set_map set_upt)
qed

lemma foreign_substring:
  assumes "foreign_windows x" and "sublist s x" and "4 \<le> length s"
  shows "\<not> set s \<subseteq> fingerprint_chars"
proof -
  from window_of_sublist [OF assms(2,3)] assms(1)
  have "\<not> set (take 4 s) \<subseteq> fingerprint_chars"
    by (simp add: foreign_windows_def list_all_iff)
  moreover have "set (take 4 s) \<subseteq> set s"
    by (rule set_take_subset)
  ultimately show ?thesis by blast
qed

text \<open>
  Claim C3, amended. For every non-blank credential \<open>x\<close>, whatever the digest function,
  the hint with \<open>showSecrets = false\<close> is exactly \<open>sha256:\<close>, then the first eight
  characters of the hexadecimal digest of the trimmed \<open>x\<close> (lower-case hexadecimal digits,
  eight of them as soon as the digest has four bytes), then \<open> \<cdot> len \<close> and the decimal
  length of the trimmed \<open>x\<close>. If moreover every four consecutive characters of \<open>x\<close>
  include one outside the fingerprint alphabet, the hint contains no substring of \<open>x\<close> of
  length at least 4.
\<close>

theorem masked_hint_is_fingerprint:
  "(trim x \<noteq> [] \<longrightarrow>
      formatTokenHint sha x False
        = js ''sha256:'' @ take 8 (digest_hex (sha (trim x)))
          @ js '' '' @ [middle_dot] @ js '' len '' @ num (length (trim x))
      \<and> set (take 8 (digest_hex (sha (trim x)))) \<subseteq> hex_chars
      \<and> (4 \<le> length (sha (trim x)) \<longrightarrow> length (take 8 (digest_hex (sha (trim x)))) = 8))
   \<and> (trim x \<noteq> [] \<and> foreign_windows x \<longrightarrow>
      (\<forall>s. sublist s x \<and> 4 \<le> length s \<longrightarrow> \<not> sublist s (formatTokenHint sha x False)))"
proof (intro conjI impI allI)
  assume "trim x \<noteq> []"
  then show "formatTokenHint sha x False
        = js ''sha256:'' @ take 8 (digest_hex (sha (trim x)))
          @ js '' '' @ [middle_dot] @ js '' len '' @ num (length (trim x))"
    by (rule masked_hint_format)
next
  have "set (take 8 (digest_hex (sha (trim x)))) \<subseteq> set (digest_hex (sha (trim x)))"
    by (rule set_take_subset)
  with set_digest_hex [of "sha (trim x)"]
  show "set (take 8 (digest_hex (sha (trim x)))) \<subseteq> hex_chars"
    by blast
next
  assume "4 \<le> length (sha (trim x))"
  then show "length (take 8 (digest_hex (sha (trim x)))) = 8"
    by (simp add: length_digest_hex)
next
  fix s
  assume h: "trim x \<noteq> [] \<and> foreign_windows x" and s: "sublist s x \<and> 4 \<le> length s"
  show "\<not> sublist s (formatTokenHint sha x False)"
  proof
    assume "sublist s (formatTokenHint sha x False)"
    then have "set s \<subseteq> set (formatTokenHint sha x False)"
      by (rule set_mono_sublist)
    with set_masked_hint_fingerprint [of x sha] h have "set s \<subseteq> fingerprint_chars"
      by blast
    with foreign_substring [of x s] h s show False
      by blast
  qed
qed

text \<open>
  The credential \<open>xoxb-1\<close>: its hint is \<open>sha256:4cf3463f \<cdot> len 6\<close>, each of its three
  windows of four characters has an \<open>x\<close>, an \<open>o\<close> or a hyphen, and its substring \<open>xoxb\<close>
  is not in the hint.
\<close>

theorem masked_hint_is_fingerprint_witness:
  "trim (js ''xoxb-1'') \<noteq> []
   \<and> 4 \<le> length (node_sha256 (trim (js ''xoxb-1'')))
   \<and> foreign_windows (js ''xoxb-1'')
   \<and> sublist (js ''xoxb'') (js ''xoxb-1'')
   \<and> 4 \<le> length (js ''xoxb'')
   \<and> formatTokenHint node_sha256 (js ''xoxb-1'') False
       = js ''sha256:4cf3463f '' @ [middle_dot] @ js '' len 6''
   \<and> \<not> sublist (js ''xoxb'') (formatTokenHint node_sha256 (js ''xoxb-1'') False)"
proof -
  have t: "trim (js ''xoxb-1'') = js ''xoxb-1''"
    by (simp add: string_defs)
  have a: "trim (js ''xoxb-1'') \<noteq> []"
    by (simp add: string_defs)
  have b: "4 \<le> length (node_sha256 (trim (js ''xoxb-1'')))"
    unfolding t by (simp add: node_sha256_def js_def)
  have c: "foreign_windows (js ''xoxb-1'')"
    by (simp add: foreign_windows_def windows_def upt_rec fingerprint_chars_def js_def
        middle_dot_def)
  have d: "sublist (js ''xoxb'') (js ''xoxb-1'')"
    by (simp add: js_def sublist_code(3))
  have e: "4 \<le> length (js ''xoxb'')"
    by (simp add: js_def)
  have pre: "take 8 (digest_hex (node_sha256 (js ''xoxb-1''))) = js ''4cf3463f''"
    by (simp add: node_sha256_def digest_hex_def hex_byte_def hexdigit_def js_def)
  have len: "num (length (js ''xoxb-1'')) = js ''6''"
    by (simp add: string_defs)
  note th = masked_hint_is_fingerprint [of "js ''xoxb-1''" node_sha256]
  from th a have "formatTokenHint node_sha256 (js ''xoxb-1'') False
        = js ''sha256:'' @ take 8 (digest_hex (node_sha256 (trim (js ''xoxb-1''))))
          @ js '' '' @ [middle_dot] @ js '' len '' @ num (length (trim (js ''xoxb-1'')))"
    by blast
  then have f: "formatTokenHint node_sha256 (js ''xoxb-1'') False
       = js ''sha256:4cf3463f '' @ [middle_dot] @ js '' len 6''"
    unfolding t pre len by (simp add: js_def)
  from th a c d e have g: "\<not> sublist (js ''xoxb'') (formatTokenHint node_sha256 (js ''xoxb-1'') False)"
    by blast
  from a b c d e f g show ?thesis
    by (intro conjI)
qed


section \<open>The rows of the table and the concrete inputs, field by field\<close>

lemma rows_buildProvidersTable:
  "rows (buildProvidersTable d cfg opts) =
     [whatsappRow d cfg,
      telegramRow d cfg (Option.bind opts opt_showSecrets = Some True),
      discordRow d cfg (Option.bind opts opt_showSecrets = Some True),
      slackRow d cfg (Option.bind opts opt_showSecrets = Some True),
      signalRow d cfg,
      imessageRow d cfg,
      msteamsRow d cfg (Option.bind opts opt_showSecrets = Some True)]"
  by (simp add: buildProvidersTable_def Let_def)

lemma row_enabled:
  "enabled (whatsappRow d cfg) = waEnabled cfg"
  "enabled (telegramRow d cfg s) = tgEnabled cfg"
  "enabled (discordRow d cfg s) = dcEnabled cfg"
  "enabled (slackRow d cfg s) = slEnabled cfg"
  "enabled (signalRow d cfg) = siEnabled cfg"
  "enabled (imessageRow d cfg) = imEnabled cfg"
  "enabled (msteamsRow d cfg s) = msEnabled cfg"
  by (simp_all add: whatsappRow_def telegramRow_def discordRow_def slackRow_def signalRow_def
      imessageRow_def msteamsRow_def)

lemma row_provider:
  "provider (whatsappRow d cfg) = js ''WhatsApp''"
  "provider (telegramRow d cfg s) = js ''Telegram''"
  "provider (discordRow d cfg s) = js ''Discord''"
  "provider (slackRow d cfg s) = js ''Slack''"
  "provider (signalRow d cfg) = js ''Signal''"
  "provider (imessageRow d cfg) = js ''iMessage''"
  "provider (msteamsRow d cfg s) = js ''MS Teams''"
  by (simp_all add: whatsappRow_def telegramRow_def discordRow_def slackRow_def signalRow_def
      imessageRow_def msteamsRow_def)

lemma row_state:
  "state (whatsappRow d cfg) =
     (if \<not> waEnabled cfg then St_off else if waLinked d cfg then St_ok else St_setup)"
  "state (telegramRow d cfg s) =
     (if \<not> tgEnabled cfg then St_off
      else if tgMisconfigured d cfg then St_warn
      else if length (tgTokenAccounts d cfg) > 0 then St_ok
      else St_setup)"
  "state (discordRow d cfg s) =
     (if \<not> dcEnabled cfg then St_off
      else if length (dcTokenAccounts d cfg) > 0 then St_ok
      else St_setup)"
  "state (slackRow d cfg s) =
     (if \<not> slEnabled cfg then St_off
      else if length (slPartial d cfg) > 0 then St_warn
      else if length (slReady d cfg) > 0 then St_ok
      else St_setup)"
  "state (signalRow d cfg) =
     (if \<not> siEnabled cfg then St_off
      else if length (siConfiguredAccounts d cfg) > 0 then St_ok
      else St_setup)"
  "state (imessageRow d cfg) =
     (if \<not> imEnabled cfg then St_off
      else if length (imConfiguredAccounts d cfg) > 0 then St_ok
      else St_setup)"
  "state (msteamsRow d cfg s) =
     (if \<not> msEnabled cfg then St_off
      else if msCreds d cfg then St_ok
      else if msAnyPresent d cfg then St_warn
      else St_setup)"
  by (simp_all add: whatsappRow_def telegramRow_def discordRow_def slackRow_def signalRow_def
      imessageRow_def msteamsRow_def)

lemma demo_deps_sel:
  "webAuthExists demo_deps = Some True"
  "getWebAuthAgeMs demo_deps = Some 120000"
  "readWebSelfId demo_deps = Some (js ''+15550001111'')"
  "listWhatsAppAccountIds demo_deps cfg = [js ''default'']"
  "resolveWhatsAppAccount demo_deps cfg accountId =
          \<lparr> wa_accountId = (case accountId of Some i \<Rightarrow> i | None \<Rightarrow> js ''default''),
            wa_name = None, wa_enabled = True, wa_selfChatMode = None,
            wa_allowFrom = None, wa_dmPolicy = None \<rparr>"
  "normalizeE164 demo_deps s = s"
  "formatAge demo_deps ms = num (nat (ms div 60000)) @ js ''m''"
  "listTelegramAccountIds demo_deps cfg = [js ''default'']"
  "resolveTelegramAccount demo_deps cfg i =
          \<lparr> tg_accountId = i, tg_enabled = True,
            tg_token = Some (js ''123456:ABCDEF''), tg_tokenSource = Some (js ''env'') \<rparr>"
  "listDiscordAccountIds demo_deps cfg = [js ''default'']"
  "resolveDiscordAccount demo_deps cfg i =
          \<lparr> dc_accountId = i, dc_enabled = True,
            dc_token = Some (js ''discord-token-1234''), dc_tokenSource = Some (js ''config'') \<rparr>"
  "listSlackAccountIds demo_deps cfg = [js ''default'']"
  "resolveSlackAccount demo_deps cfg i =
          \<lparr> sl_accountId = i, sl_enabled = True,
            sl_botToken = Some (js ''xoxb-1''), sl_appToken = Some (js ''xapp-1''),
            sl_botTokenSource = None, sl_appTokenSource = Some (js ''none'') \<rparr>"
  "listSignalAccountIds demo_deps cfg = [js ''default'']"
  "resolveSignalAccount demo_deps cfg i =
          \<lparr> si_accountId = i, si_enabled = True, si_configured = True,
            si_baseUrl = Some (js ''http://127.0.0.1:8080'') \<rparr>"
  "listIMessageAccountIds demo_deps cfg = [js ''default'']"
  "resolveIMessageAccount demo_deps cfg i =
          \<lparr> im_accountId = i, im_enabled = True, im_configured = True,
            im_config = Some \<lparr> im_cliPath = Some (js ''imsg''),
                               im_dbPath = Some (js ''/data/0/chat.db'') \<rparr> \<rparr>"
  "resolveMSTeamsCredentials demo_deps = resolveMSTeamsCredentials_spec Map.empty"
  "existsSync demo_deps p = Some False"
  "process_env demo_deps = Map.empty"
  "sha256 demo_deps = node_sha256"
  by (simp_all add: demo_deps_def)

lemma demo_cfg_sel:
  "web demo_cfg = None" "whatsapp demo_cfg = None" "telegram demo_cfg = None"
  "discord demo_cfg = None" "slack demo_cfg = None" "signal demo_cfg = None"
  "imessage demo_cfg = None" "msteams demo_cfg = None"
  by (simp_all add: demo_cfg_def)

lemma cfg_web_off_sel:
  "web cfg_web_off = Some \<lparr> section_enabled = Some False \<rparr>"
  "whatsapp cfg_web_off = None" "telegram cfg_web_off = None" "discord cfg_web_off = None"
  "slack cfg_web_off = None" "signal cfg_web_off = None" "imessage cfg_web_off = None"
  "msteams cfg_web_off = None"
  by (simp_all add: cfg_web_off_def demo_cfg_def)

lemma row_off_iff:
  "(state (whatsappRow d cfg) = St_off) = (\<not> enabled (whatsappRow d cfg))"
  "(state (telegramRow d cfg s) = St_off) = (\<not> enabled (telegramRow d cfg s))"
  "(state (discordRow d cfg s) = St_off) = (\<not> enabled (discordRow d cfg s))"
  "(state (slackRow d cfg s) = St_off) = (\<not> enabled (slackRow d cfg s))"
  "(state (signalRow d cfg) = St_off) = (\<not> enabled (signalRow d cfg))"
  "(state (imessageRow d cfg) = St_off) = (\<not> enabled (imessageRow d cfg))"
  "(state (msteamsRow d cfg s) = St_off) = (\<not> enabled (msteamsRow d cfg s))"
  by (simp_all add: row_state row_enabled)


section \<open>Off means disabled\<close>

text \<open>
  Claim C1. Whatever the configuration, the collaborators and the options,
  \<open>buildProvidersTable\<close> returns one row for each of the seven providers, in the fixed
  order, and every row has state \<open>off\<close> exactly when its \<open>enabled\<close> field is false.
\<close>

theorem state_off_iff_disabled:
  "map provider (rows (buildProvidersTable d cfg opts))
     = [js ''WhatsApp'', js ''Telegram'', js ''Discord'', js ''Slack'', js ''Signal'',
        js ''iMessage'', js ''MS Teams'']
   \<and> (\<forall>r \<in> set (rows (buildProvidersTable d cfg opts)).
         (state r = St_off) = (\<not> enabled r))"
  by (simp add: rows_buildProvidersTable row_off_iff row_provider)

text \<open>
  With the WhatsApp web session switched off and everything else left at its default, the
  WhatsApp row is off and disabled, and the Discord row is enabled and not off.
\<close>

theorem state_off_iff_disabled_witness:
  "whatsappRow demo_deps cfg_web_off \<in> set (rows (buildProvidersTable demo_deps cfg_web_off None))
   \<and> state (whatsappRow demo_deps cfg_web_off) = St_off
   \<and> \<not> enabled (whatsappRow demo_deps cfg_web_off)
   \<and> discordRow demo_deps cfg_web_off False \<in> set (rows (buildProvidersTable demo_deps cfg_web_off None))
   \<and> state (discordRow demo_deps cfg_web_off False) = St_ok
   \<and> enabled (discordRow demo_deps cfg_web_off False)"
  using state_off_iff_disabled [of demo_deps cfg_web_off None]
  by (simp add: rows_buildProvidersTable row_state row_enabled waEnabled_def dcEnabled_def
      dcTokenAccounts_def dcEnabledAccounts_def dcAccounts_def not_disabled_def
      demo_deps_sel cfg_web_off_sel string_defs)


section \<open>The source summary of three tags\<close>

text \<open>
  Claim C2, as stated, fails: on \<open>["env", "env", "file"]\<close> the parts are not
  \<open>["env", "file"]\<close>. The parts are the rendered tags, count suffix included, the very
  strings that the label joins.
\<close>

theorem summarizeSources_parts_counterexample:
  "parts (summarizeSources [Some (js ''env''), Some (js ''env''), Some (js ''file'')])
     \<noteq> [js ''env'', js ''file'']"
  by (simp add: summarizeSources_def count_source_def source_key_def render_part_def
      string_defs)

text \<open>
  Claim C2, amended. On \<open>["env", "env", "file"]\<close> the summarizer returns the label
  \<open>env\<times>2+file\<close> and the parts \<open>["env\<times>2", "file"]\<close>; on the empty list it returns the
  label \<open>unknown\<close> and no parts.
\<close>

theorem summarizeSources_examples:
  "summarizeSources [Some (js ''env''), Some (js ''env''), Some (js ''file'')]
     = \<lparr> label = js ''env'' @ [times_sign] @ js ''2+file'',
         parts = [js ''env'' @ [times_sign] @ js ''2'', js ''file''] \<rparr>
   \<and> summarizeSources [] = \<lparr> label = js ''unknown'', parts = [] \<rparr>"
  by (simp add: summarizeSources_def count_source_def source_key_def render_part_def
      string_defs)



section \<open>The inconsistent configuration, field by field\<close>

lemma cfg_warn_sel:
  "web cfg_warn = None" "whatsapp cfg_warn = None"
  "telegram cfg_warn = Some \<lparr> telegram_enabled = Some True,
                            telegram_tokenFile = Some (js ''/run/secrets/telegram''),
                            telegram_accounts = None \<rparr>"
  "discord cfg_warn = None" "slack cfg_warn = None" "signal cfg_warn = None"
  "imessage cfg_warn = None"
  "msteams cfg_warn = Some \<lparr> msteams_enabled = None,
                           msteams_appId = Some (js ''app-1''),
                           msteams_appPassword = None,
                           msteams_tenantId = None \<rparr>"
  by (simp_all add: cfg_warn_def demo_cfg_def)

lemma deps_warn_sel:
  "listSlackAccountIds deps_warn cfg = [js ''a'', js ''b'']"
  "resolveSlackAccount deps_warn cfg i =
            \<lparr> sl_accountId = i, sl_enabled = True,
              sl_botToken = Some (js ''xoxb-1''),
              sl_appToken = (if i = js ''a'' then Some (js ''xapp-1'') else None),
              sl_botTokenSource = Some (js ''config''),
              sl_appTokenSource = (if i = js ''a'' then Some (js ''config'') else None) \<rparr>"
  "listTelegramAccountIds deps_warn = listTelegramAccountIds demo_deps"
  "resolveTelegramAccount deps_warn = resolveTelegramAccount demo_deps"
  "resolveMSTeamsCredentials deps_warn = resolveMSTeamsCredentials demo_deps"
  "existsSync deps_warn = existsSync demo_deps"
  "process_env deps_warn = process_env demo_deps"
  "sha256 deps_warn = sha256 demo_deps"
  by (simp_all add: deps_warn_def)


section \<open>The hint with the secret shown\<close>

lemma trim_blank: "list_all is_ws x \<Longrightarrow> trim x = []"
proof -
  assume "list_all is_ws x"
  then have "dropWhile is_ws x = []"
    by (simp add: list_all_iff)
  then show ?thesis
    unfolding trim_def by (simp only: rev.simps dropWhile.simps)
qed

text \<open>
  Claim C4, as stated, fails on an input with surrounding white space. The input
  \<open>" abcdefghij"\<close> has length 11, which is more than 10, yet the hint is not its first four
  and last four characters with the length 11: the formatter trims first, finds ten
  characters and shows all of them, with the length 10.
\<close>

theorem formatTokenHint_untrimmed_counterexample:
  "10 < length (js '' abcdefghij'')
   \<and> formatTokenHint node_sha256 (js '' abcdefghij'') True
       = js ''abcdefghij '' @ [middle_dot] @ js '' len 10''
   \<and> formatTokenHint node_sha256 (js '' abcdefghij'') True
       \<noteq> take 4 (js '' abcdefghij'') @ [ellipsis] @ drop 7 (js '' abcdefghij'')
           @ js '' '' @ [middle_dot] @ js '' len 11''"
  by (simp add: formatTokenHint_def len_suffix_def string_defs)

text \<open>
  Claim C4, amended. The formatter is a total function; value and length are those of the
  input after \<open>trim\<close>. An input of white space only (the empty input included) yields
  \<open>empty\<close>, whatever the flag; with \<open>showSecrets = true\<close> a trimmed value of at most 10
  characters is shown in full, followed by \<open> \<cdot> len \<close> and its length; a longer one is
  shown as its first four and its last four characters joined by the ellipsis, followed
  by \<open> \<cdot> len \<close> and its length.
\<close>

theorem formatTokenHint_on_trimmed:
  "(list_all is_ws x \<longrightarrow> formatTokenHint sha x b = js ''empty'')
   \<and> (trim x \<noteq> [] \<and> length (trim x) \<le> 10 \<longrightarrow>
        formatTokenHint sha x True
          = trim x @ js '' '' @ [middle_dot] @ js '' len '' @ num (length (trim x)))
   \<and> (10 < length (trim x) \<longrightarrow>
        formatTokenHint sha x True
          = take 4 (trim x) @ [ellipsis] @ rev (take 4 (rev (trim x)))
            @ js '' '' @ [middle_dot] @ js '' len '' @ num (length (trim x)))"
proof (intro conjI impI)
  assume "list_all is_ws x"
  then show "formatTokenHint sha x b = js ''empty''"
    by (simp add: formatTokenHint_def trim_blank)
next
  assume "trim x \<noteq> [] \<and> length (trim x) \<le> 10"
  then show "formatTokenHint sha x True
          = trim x @ js '' '' @ [middle_dot] @ js '' len '' @ num (length (trim x))"
    by (simp add: formatTokenHint_def len_suffix_def Let_def)
next
  assume long: "10 < length (trim x)"
  then have "trim x \<noteq> []" by auto
  moreover have "rev (take 4 (rev (trim x))) = drop (length (trim x) - 4) (trim x)"
    by (simp add: take_rev)
  ultimately show "formatTokenHint sha x True
          = take 4 (trim x) @ [ellipsis] @ rev (take 4 (rev (trim x)))
            @ js '' '' @ [middle_dot] @ js '' len '' @ num (length (trim x))"
    using long by (simp add: formatTokenHint_def len_suffix_def Let_def)
qed

text \<open>
  The examples of the specification: blank and empty inputs, \<open>abcdefghij\<close> shown in full,
  \<open>abcdefghijk\<close> shown as \<open>abcd\<dots>hijk \<cdot> len 11\<close>.
\<close>

theorem formatTokenHint_on_trimmed_witness:
  "list_all is_ws (js ''  '')
   \<and> formatTokenHint node_sha256 (js ''  '') False = js ''empty''
   \<and> formatTokenHint node_sha256 [] False = js ''empty''
   \<and> trim (js ''abcdefghij'') \<noteq> [] \<and> length (trim (js ''abcdefghij'')) \<le> 10
   \<and> formatTokenHint node_sha256 (js ''abcdefghij'') True
       = js ''abcdefghij '' @ [middle_dot] @ js '' len 10''
   \<and> 10 < length (trim (js ''abcdefghijk''))
   \<and> formatTokenHint node_sha256 (js ''abcdefghijk'') True
       = js ''abcd'' @ [ellipsis] @ js ''hijk '' @ [middle_dot] @ js '' len 11''"
  using formatTokenHint_on_trimmed [of "js ''  ''" node_sha256 False]
    formatTokenHint_on_trimmed [of "[]" node_sha256 False]
    formatTokenHint_on_trimmed [of "js ''abcdefghij''" node_sha256 False]
    formatTokenHint_on_trimmed [of "js ''abcdefghijk''" node_sha256 False]
  by (simp add: string_defs)


section \<open>Telegram: the global token file\<close>

lemma tgCheckAccount_extends: "\<exists>rest. tgCheckAccount d cfg files i = files @ rest"
  by (simp add: tgCheckAccount_def Let_def)

lemma foldl_tgCheckAccount_extends:
  "\<exists>rest. foldl (tgCheckAccount d cfg) files ids = files @ rest"
proof (induction ids arbitrary: files)
  case Nil
  show ?case by simp
next
  case (Cons i ids)
  obtain r1 where r1: "tgCheckAccount d cfg files i = files @ r1"
    using tgCheckAccount_extends by blast
  obtain r2 where "foldl (tgCheckAccount d cfg) (files @ r1) ids = (files @ r1) @ r2"
    using Cons.IH by blast
  with r1 show ?case by simp
qed

lemma row_detail_telegram:
  "detail (telegramRow d cfg s) =
         (if tgEnabled cfg
          then (if tgMisconfigured d cfg
                then js ''token file missing ('' @ first_rendered (tgMissingFiles d cfg) @ js '')''
                else if length (tgTokenAccounts d cfg) > 0
                then js ''bot token '' @ label (tgSources d cfg)
                     @ (if tgTokenHint d cfg s \<noteq> []
                        then js '' ('' @ tgTokenHint d cfg s @ js '')''
                        else [])
                     @ js '' '' @ [middle_dot] @ js '' accounts ''
                     @ num (length (tgTokenAccounts d cfg)) @ js ''/''
                     @ num (length_or_1 (tgEnabledAccounts d cfg))
                else js ''no bot token (TELEGRAM_BOT_TOKEN / telegram.botToken)'')
          else js ''disabled'')"
  by (simp add: telegramRow_def)

text \<open>
  Claim C6. If Telegram is enabled, \<open>telegram.tokenFile\<close> is configured (not blank) and
  \<open>fs.existsSync\<close> answers false for its trimmed path, then the Telegram row has state
  \<open>warn\<close> and its detail contains the text \<open>telegram.tokenFile\<close>.
\<close>

theorem telegram_missing_global_token_file:
  assumes "tgEnabled cfg"
    and "Option.bind (telegram cfg) telegram_tokenFile = Some p"
    and "trim p \<noteq> []"
    and "existsSync d (trim p) = Some False"
  shows "state (telegramRow d cfg s) = St_warn
         \<and> sublist (js ''telegram.tokenFile'') (detail (telegramRow d cfg s))"
proof -
  have "tgGlobalTokenFileExists d cfg = Some False"
    using assms by (simp add: tgGlobalTokenFileExists_def existsSyncMaybe_def trim_or_empty_def)
  moreover have "truthy (trim_opt (Option.bind (telegram cfg) telegram_tokenFile))"
    using assms by (simp add: truthy_def trim_opt_def)
  ultimately obtain rest where files: "tgMissingFiles d cfg = js ''telegram.tokenFile'' # rest"
    using assms(1) foldl_tgCheckAccount_extends [of d cfg "[js ''telegram.tokenFile'']"]
    by (auto simp: tgMissingFiles_def)
  then have mis: "tgMisconfigured d cfg"
    by (simp add: tgMisconfigured_def)
  have "detail (telegramRow d cfg s)
          = js ''token file missing ('' @ js ''telegram.tokenFile'' @ js '')''"
    using assms(1) mis files by (simp add: row_detail_telegram first_rendered_def)
  then have "sublist (js ''telegram.tokenFile'') (detail (telegramRow d cfg s))"
    by simp
  with assms(1) mis show ?thesis by (simp add: row_state)
qed

text \<open>
  The configuration \<open>cfg_warn\<close> declares \<open>/run/secrets/telegram\<close>, which does not exist.
\<close>

theorem telegram_missing_global_token_file_witness:
  "tgEnabled cfg_warn
   \<and> Option.bind (telegram cfg_warn) telegram_tokenFile = Some (js ''/run/secrets/telegram'')
   \<and> trim (js ''/run/secrets/telegram'') \<noteq> []
   \<and> existsSync deps_warn (trim (js ''/run/secrets/telegram'')) = Some False
   \<and> state (telegramRow deps_warn cfg_warn False) = St_warn
   \<and> sublist (js ''telegram.tokenFile'') (detail (telegramRow deps_warn cfg_warn False))"
proof -
  have a: "tgEnabled cfg_warn"
    by (simp add: tgEnabled_def not_disabled_def cfg_warn_sel)
  have b: "Option.bind (telegram cfg_warn) telegram_tokenFile = Some (js ''/run/secrets/telegram'')"
    by (simp add: cfg_warn_sel)
  have c: "trim (js ''/run/secrets/telegram'') \<noteq> []"
    by (simp add: string_defs)
  have e: "existsSync deps_warn (trim (js ''/run/secrets/telegram'')) = Some False"
    by (simp add: deps_warn_sel demo_deps_sel)
  from telegram_missing_global_token_file [OF a b c e, of False] a b c e
  show ?thesis by simp
qed



section \<open>Slack: partial tokens\<close>

lemma row_detail_slack:
  "detail (slackRow d cfg s) =
         (if slEnabled cfg
          then (if length (slPartial d cfg) > 0
                then js ''partial tokens (need bot+app) '' @ [middle_dot] @ js '' accounts ''
                     @ num (length (slPartial d cfg))
                else if length (slReady d cfg) > 0
                then js ''tokens ok (bot '' @ label (slBotSources d cfg)
                     @ (if slBotHint d cfg s \<noteq> []
                        then js '' '' @ slBotHint d cfg s else [])
                     @ js '', app '' @ label (slAppSources d cfg)
                     @ (if slAppHint d cfg s \<noteq> []
                        then js '' '' @ slAppHint d cfg s else [])
                     @ js '') '' @ [middle_dot] @ js '' accounts ''
                     @ num (length (slReady d cfg)) @ js ''/''
                     @ num (length_or_1 (slEnabledAccounts d cfg))
                else if slHasAnyToken d cfg
                then js ''tokens incomplete (need bot+app)''
                else js ''no tokens (SLACK_BOT_TOKEN + SLACK_APP_TOKEN)'')
          else js ''disabled'')"
  by (simp add: slackRow_def)

text \<open>
  Claim C7. If Slack is enabled and some enabled account has exactly one of \<open>botToken\<close>
  and \<open>appToken\<close> non-blank, the Slack row has state \<open>warn\<close> and its detail contains
  \<open>partial tokens\<close>. Nothing is assumed of the other accounts, so the outcome stands when
  another enabled account has both tokens.
\<close>

theorem slack_partial_tokens_warn:
  assumes "slEnabled cfg"
    and "a \<in> set (slAccounts d cfg)"
    and "sl_enabled a"
    and "truthy (trim_opt (sl_botToken a)) \<noteq> truthy (trim_opt (sl_appToken a))"
  shows "state (slackRow d cfg s) = St_warn
         \<and> sublist (js ''partial tokens'') (detail (slackRow d cfg s))"
proof -
  have "a \<in> set (slPartial d cfg)"
    using assms(2-4) by (auto simp: slPartial_def slEnabledAccounts_def)
  then have partial: "length (slPartial d cfg) > 0"
    by (cases "slPartial d cfg") auto
  have "detail (slackRow d cfg s)
          = js ''partial tokens'' @ js '' (need bot+app) '' @ [middle_dot] @ js '' accounts ''
            @ num (length (slPartial d cfg))"
    using assms(1) partial by (simp add: row_detail_slack js_def)
  then have "sublist (js ''partial tokens'') (detail (slackRow d cfg s))"
    by simp
  with assms(1) partial show ?thesis by (simp add: row_state)
qed

text \<open>
  In \<open>deps_warn\<close> the account \<open>b\<close> has a bot token only, while the account \<open>a\<close> is ready
  with both tokens.
\<close>

theorem slack_partial_tokens_warn_witness:
  "slEnabled cfg_warn
   \<and> resolveSlackAccount deps_warn cfg_warn (js ''b'') \<in> set (slAccounts deps_warn cfg_warn)
   \<and> sl_enabled (resolveSlackAccount deps_warn cfg_warn (js ''b''))
   \<and> truthy (trim_opt (sl_botToken (resolveSlackAccount deps_warn cfg_warn (js ''b''))))
   \<and> \<not> truthy (trim_opt (sl_appToken (resolveSlackAccount deps_warn cfg_warn (js ''b''))))
   \<and> resolveSlackAccount deps_warn cfg_warn (js ''a'') \<in> set (slReady deps_warn cfg_warn)
   \<and> state (slackRow deps_warn cfg_warn False) = St_warn
   \<and> sublist (js ''partial tokens'') (detail (slackRow deps_warn cfg_warn False))"
proof -
  have a: "slEnabled cfg_warn"
    by (simp add: slEnabled_def not_disabled_def cfg_warn_sel)
  have b: "resolveSlackAccount deps_warn cfg_warn (js ''b'') \<in> set (slAccounts deps_warn cfg_warn)"
    by (simp add: slAccounts_def deps_warn_sel)
  have c: "sl_enabled (resolveSlackAccount deps_warn cfg_warn (js ''b''))"
    by (simp add: deps_warn_sel)
  have bot: "truthy (trim_opt (sl_botToken (resolveSlackAccount deps_warn cfg_warn (js ''b''))))"
    by (simp add: deps_warn_sel string_defs)
  have app: "\<not> truthy (trim_opt (sl_appToken (resolveSlackAccount deps_warn cfg_warn (js ''b''))))"
    by (simp add: deps_warn_sel string_defs)
  have ready: "resolveSlackAccount deps_warn cfg_warn (js ''a'') \<in> set (slReady deps_warn cfg_warn)"
    by (simp add: slReady_def slEnabledAccounts_def slAccounts_def deps_warn_sel string_defs)
  from bot app
  have e: "truthy (trim_opt (sl_botToken (resolveSlackAccount deps_warn cfg_warn (js ''b''))))
           \<noteq> truthy (trim_opt (sl_appToken (resolveSlackAccount deps_warn cfg_warn (js ''b''))))"
    by simp
  from slack_partial_tokens_warn [OF a b c e, of False] a b c bot app ready
  show ?thesis by simp
qed


section \<open>MS Teams: no credentials\<close>

lemma row_detail_msteams:
  "detail (msteamsRow d cfg s) =
         (if msEnabled cfg
          then (if msCreds d cfg
                then js ''credentials set''
                     @ (if msPasswordHint d cfg s \<noteq> []
                        then js '' (password '' @ msPasswordHint d cfg s @ js '')''
                        else [])
                else if msAnyPresent d cfg
                then js ''credentials incomplete (missing ''
                     @ join (js '', '') (msMissing d cfg) @ js '')''
                else js ''no credentials (MSTEAMS_APP_ID / _PASSWORD / _TENANT_ID)'')
          else js ''disabled'')"
  by (simp add: msteamsRow_def)

text \<open>
  Claim C8. \<open>resolveMSTeamsCredentials\<close> being the probe that the specification describes,
  if MS Teams is enabled and neither the configuration nor the environment variables
  \<open>MSTEAMS_APP_ID\<close>, \<open>MSTEAMS_APP_PASSWORD\<close>, \<open>MSTEAMS_TENANT_ID\<close> hold a non-blank
  value, then the MS Teams row has state \<open>setup\<close> and its detail is
  \<open>no credentials (MSTEAMS_APP_ID / _PASSWORD / _TENANT_ID)\<close>, which names the three
  keys; all three of \<open>appId\<close>, \<open>appPassword\<close>, \<open>tenantId\<close> are computed as missing.
\<close>

theorem msteams_no_credentials_setup:
  assumes "msEnabled cfg"
    and "resolveMSTeamsCredentials d = resolveMSTeamsCredentials_spec (process_env d)"
    and "\<not> truthy (trim_opt (Option.bind (msteams cfg) msteams_appId))"
    and "\<not> truthy (trim_opt (Option.bind (msteams cfg) msteams_appPassword))"
    and "\<not> truthy (trim_opt (Option.bind (msteams cfg) msteams_tenantId))"
    and "\<not> truthy (trim_opt (process_env d (js ''MSTEAMS_APP_ID'')))"
    and "\<not> truthy (trim_opt (process_env d (js ''MSTEAMS_APP_PASSWORD'')))"
    and "\<not> truthy (trim_opt (process_env d (js ''MSTEAMS_TENANT_ID'')))"
  shows "state (msteamsRow d cfg s) = St_setup
         \<and> detail (msteamsRow d cfg s)
             = js ''no credentials (MSTEAMS_APP_ID / _PASSWORD / _TENANT_ID)''
         \<and> msMissing d cfg = [js ''appId'', js ''appPassword'', js ''tenantId'']"
proof -
  have creds: "\<not> msCreds d cfg"
    using assms(2,3,6) by (simp add: msCreds_def resolveMSTeamsCredentials_spec_def or_else_def)
  have any: "\<not> msAnyPresent d cfg"
    using assms(3-8)
    by (simp add: msAnyPresent_def msAppId_def msAppPassword_def msTenantId_def or_else_def)
  have missing: "msMissing d cfg = [js ''appId'', js ''appPassword'', js ''tenantId'']"
    using assms(3-8)
    by (simp add: msMissing_def msAppId_def msAppPassword_def msTenantId_def or_else_def)
  from assms(1) creds any missing show ?thesis
    by (simp add: row_state row_detail_msteams)
qed

text \<open>The empty configuration with an empty environment.\<close>

theorem msteams_no_credentials_setup_witness:
  "msEnabled demo_cfg
   \<and> resolveMSTeamsCredentials demo_deps = resolveMSTeamsCredentials_spec (process_env demo_deps)
   \<and> \<not> truthy (trim_opt (Option.bind (msteams demo_cfg) msteams_appId))
   \<and> \<not> truthy (trim_opt (Option.bind (msteams demo_cfg) msteams_appPassword))
   \<and> \<not> truthy (trim_opt (Option.bind (msteams demo_cfg) msteams_tenantId))
   \<and> \<not> truthy (trim_opt (process_env demo_deps (js ''MSTEAMS_APP_ID'')))
   \<and> \<not> truthy (trim_opt (process_env demo_deps (js ''MSTEAMS_APP_PASSWORD'')))
   \<and> \<not> truthy (trim_opt (process_env demo_deps (js ''MSTEAMS_TENANT_ID'')))
   \<and> state (msteamsRow demo_deps demo_cfg False) = St_setup
   \<and> detail (msteamsRow demo_deps demo_cfg False)
       = js ''no credentials (MSTEAMS_APP_ID / _PASSWORD / _TENANT_ID)''"
proof -
  have a: "msEnabled demo_cfg"
    by (simp add: msEnabled_def not_disabled_def demo_cfg_sel)
  have b: "resolveMSTeamsCredentials demo_deps = resolveMSTeamsCredentials_spec (process_env demo_deps)"
    by (simp add: demo_deps_sel)
  have c1: "\<not> truthy (trim_opt (Option.bind (msteams demo_cfg) msteams_appId))"
    and c2: "\<not> truthy (trim_opt (Option.bind (msteams demo_cfg) msteams_appPassword))"
    and c3: "\<not> truthy (trim_opt (Option.bind (msteams demo_cfg) msteams_tenantId))"
    by (simp_all add: demo_cfg_sel truthy_def trim_opt_def)
  have e1: "\<not> truthy (trim_opt (process_env demo_deps (js ''MSTEAMS_APP_ID'')))"
    and e2: "\<not> truthy (trim_opt (process_env demo_deps (js ''MSTEAMS_APP_PASSWORD'')))"
    and e3: "\<not> truthy (trim_opt (process_env demo_deps (js ''MSTEAMS_TENANT_ID'')))"
    by (simp_all add: demo_deps_sel truthy_def trim_opt_def)
  from msteams_no_credentials_setup [OF a b c1 c2 c3 e1 e2 e3, of False] a b c1 c2 c3 e1 e2 e3
  show ?thesis by simp
qed



section \<open>Slack: absent source tags and the token hints\<close>

lemma map_set_other: "(k, n) \<in> set m \<Longrightarrow> k \<noteq> k' \<Longrightarrow> (k, n) \<in> set (map_set m k' v)"
  by (induction m) auto

lemma map_set_self: "(k, v) \<in> set (map_set m k v)"
  by (induction m) auto

lemma count_source_adds: "\<exists>n>0. (source_key s, n) \<in> set (count_source m s)"
  using map_set_self by (auto simp: count_source_def Let_def)

lemma count_source_keeps:
  assumes "\<exists>n>0. (k, n) \<in> set m"
  shows "\<exists>n>0. (k, n) \<in> set (count_source m s)"
proof (cases "source_key s = k")
  case True
  then show ?thesis using count_source_adds [of s m] by simp
next
  case False
  from assms obtain n where "n > 0" and "(k, n) \<in> set m" by blast
  with False have "(k, n) \<in> set (count_source m s)"
    by (simp add: count_source_def Let_def map_set_other)
  with \<open>n > 0\<close> show ?thesis by blast
qed

lemma foldl_count_source_keeps:
  "\<exists>n>0. (k, n) \<in> set m \<Longrightarrow> \<exists>n>0. (k, n) \<in> set (foldl count_source m xs)"
  by (induction xs arbitrary: m) (simp_all add: count_source_keeps)

lemma foldl_count_source_has:
  "s \<in> set xs \<Longrightarrow> \<exists>n>0. (source_key s, n) \<in> set (foldl count_source m xs)"
proof (induction xs arbitrary: m)
  case Nil
  then show ?case by simp
next
  case (Cons x xs)
  show ?case
  proof (cases "s = x")
    case True
    then show ?thesis
      using foldl_count_source_keeps [OF count_source_adds [of x m], of xs] by simp
  next
    case False
    with Cons show ?thesis by simp
  qed
qed

lemma summarizeSources_part:
  assumes "s \<in> set xs"
  shows "\<exists>n>0. render_part (source_key s, n) \<in> set (parts (summarizeSources xs))"
proof -
  from foldl_count_source_has [OF assms, of "[]"]
  obtain n where "n > 0" and "(source_key s, n) \<in> set (foldl count_source [] xs)" by blast
  then have "render_part (source_key s, n) \<in> set (parts (summarizeSources xs))"
    by (simp add: summarizeSources_def Let_def)
  with \<open>n > 0\<close> show ?thesis by blast
qed

lemma summarizeSources_label:
  assumes "xs \<noteq> []"
  shows "label (summarizeSources xs) = join (js ''+'') (parts (summarizeSources xs))"
proof -
  from assms obtain s where "s \<in> set xs" by (cases xs) auto
  from summarizeSources_part [OF this] have "parts (summarizeSources xs) \<noteq> []" by auto
  then show ?thesis by (simp add: summarizeSources_def Let_def)
qed

lemma source_key_none: "source_key (Some (or_none None)) = js ''none''"
  by (simp add: source_key_def or_none_def string_defs)

lemma formatTokenHint_nonempty: "formatTokenHint sha x b \<noteq> []"
  by (simp add: formatTokenHint_def Let_def js_def)

lemma first_opt_Some: "first_opt xs = Some a \<Longrightarrow> a \<in> set xs"
  by (cases xs) (simp_all add: first_opt_def)

lemma slReady_tokens:
  assumes "a \<in> set (slReady d cfg)"
  shows "\<exists>bot app. sl_botToken a = Some bot \<and> trim bot \<noteq> []
                   \<and> sl_appToken a = Some app \<and> trim app \<noteq> []"
  using assms by (auto simp: slReady_def truthy_def trim_opt_def split: option.splits)

lemma deps_slack_sources_sel:
  "listSlackAccountIds deps_slack_sources cfg = [js ''a'', js ''b'']"
  "resolveSlackAccount deps_slack_sources cfg i =
            \<lparr> sl_accountId = i, sl_enabled = True,
              sl_botToken = Some (js ''xoxb-1''),
              sl_appToken = Some (js ''xapp-1''),
              sl_botTokenSource = (if i = js ''a'' then None else Some (js ''none'')),
              sl_appTokenSource = (if i = js ''a'' then Some (js ''none'') else None) \<rparr>"
  "sha256 deps_slack_sources = sha256 demo_deps"
  by (simp_all add: deps_slack_sources_def)

lemma slack_sources_ready:
  "slReady deps_slack_sources demo_cfg
     = [resolveSlackAccount deps_slack_sources demo_cfg (js ''a''),
        resolveSlackAccount deps_slack_sources demo_cfg (js ''b'')]"
  by (simp add: slReady_def slEnabledAccounts_def slAccounts_def deps_slack_sources_sel
      string_defs)

lemma slack_sources_tags:
  "sl_botTokenSource (resolveSlackAccount deps_slack_sources demo_cfg (js ''a'')) = None"
  "sl_appTokenSource (resolveSlackAccount deps_slack_sources demo_cfg (js ''a''))
     = Some (js ''none'')"
  "sl_botTokenSource (resolveSlackAccount deps_slack_sources demo_cfg (js ''b''))
     = Some (js ''none'')"
  "sl_appTokenSource (resolveSlackAccount deps_slack_sources demo_cfg (js ''b'')) = None"
  by (simp_all add: deps_slack_sources_sel js_def)

lemma slack_sources_labels:
  "label (slBotSources deps_slack_sources demo_cfg) = js ''none'' @ [times_sign] @ js ''2''"
  "label (slAppSources deps_slack_sources demo_cfg) = js ''none'' @ [times_sign] @ js ''2''"
proof -
  have bot: "map (\<lambda>a. Some (or_none (sl_botTokenSource a))) (slReady deps_slack_sources demo_cfg)
               = [Some (js ''none''), Some (js ''none'')]"
    by (simp add: slack_sources_ready slack_sources_tags or_none_def)
  have app: "map (\<lambda>a. Some (or_none (sl_appTokenSource a))) (slReady deps_slack_sources demo_cfg)
               = [Some (js ''none''), Some (js ''none'')]"
    by (simp add: slack_sources_ready slack_sources_tags or_none_def)
  have twice: "label (summarizeSources [Some (js ''none''), Some (js ''none'')])
                 = js ''none'' @ [times_sign] @ js ''2''"
    by (simp add: summarizeSources_def count_source_def source_key_def render_part_def
        string_defs)
  show "label (slBotSources deps_slack_sources demo_cfg) = js ''none'' @ [times_sign] @ js ''2''"
    by (simp only: slBotSources_def bot twice)
  show "label (slAppSources deps_slack_sources demo_cfg) = js ''none'' @ [times_sign] @ js ''2''"
    by (simp only: slAppSources_def app twice)
qed

text \<open>
  Claim C10. In the Slack block, a ready account whose \<open>botTokenSource\<close> (respectively
  \<open>appTokenSource\<close>) is absent is counted under the tag \<open>none\<close>: the bot (app) sources
  summary has a part \<open>none\<close> or \<open>none\<times>n\<close>, and its label is the parts joined by \<open>+\<close>; the
  summarizer's own default \<open>unknown\<close> is not used for it. For the sample account, the
  first ready one, the bot (app) hint is empty exactly when its bot (app) source tag is
  the string \<open>none\<close>; an absent tag does not suppress the hint.
\<close>

theorem slack_sources_none_and_hints:
  "(a \<in> set (slReady d cfg) \<and> sl_botTokenSource a = None \<longrightarrow>
      (\<exists>n>0. render_part (js ''none'', n) \<in> set (parts (slBotSources d cfg)))
      \<and> label (slBotSources d cfg) = join (js ''+'') (parts (slBotSources d cfg)))
   \<and> (a \<in> set (slReady d cfg) \<and> sl_appTokenSource a = None \<longrightarrow>
      (\<exists>n>0. render_part (js ''none'', n) \<in> set (parts (slAppSources d cfg)))
      \<and> label (slAppSources d cfg) = join (js ''+'') (parts (slAppSources d cfg)))
   \<and> (slSample d cfg = Some a \<longrightarrow>
      (slBotHint d cfg s = []) = (sl_botTokenSource a = Some (js ''none''))
      \<and> (slAppHint d cfg s = []) = (sl_appTokenSource a = Some (js ''none'')))"
proof (intro conjI impI)
  assume h: "a \<in> set (slReady d cfg) \<and> sl_botTokenSource a = None"
  then have "Some (or_none None) \<in> set (map (\<lambda>a. Some (or_none (sl_botTokenSource a))) (slReady d cfg))"
    by force
  from summarizeSources_part [OF this]
  show "\<exists>n>0. render_part (js ''none'', n) \<in> set (parts (slBotSources d cfg))"
    by (simp add: slBotSources_def source_key_none)
  from h have "map (\<lambda>a. Some (or_none (sl_botTokenSource a))) (slReady d cfg) \<noteq> []"
    by auto
  from summarizeSources_label [OF this]
  show "label (slBotSources d cfg) = join (js ''+'') (parts (slBotSources d cfg))"
    by (simp add: slBotSources_def)
next
  assume h: "a \<in> set (slReady d cfg) \<and> sl_appTokenSource a = None"
  then have "Some (or_none None) \<in> set (map (\<lambda>a. Some (or_none (sl_appTokenSource a))) (slReady d cfg))"
    by force
  from summarizeSources_part [OF this]
  show "\<exists>n>0. render_part (js ''none'', n) \<in> set (parts (slAppSources d cfg))"
    by (simp add: slAppSources_def source_key_none)
  from h have "map (\<lambda>a. Some (or_none (sl_appTokenSource a))) (slReady d cfg) \<noteq> []"
    by auto
  from summarizeSources_label [OF this]
  show "label (slAppSources d cfg) = join (js ''+'') (parts (slAppSources d cfg))"
    by (simp add: slAppSources_def)
next
  assume sample: "slSample d cfg = Some a"
  then have "a \<in> set (slReady d cfg)"
    by (simp add: slSample_def first_opt_Some)
  from slReady_tokens [OF this] obtain bot app
    where "sl_botToken a = Some bot" "trim bot \<noteq> []" "sl_appToken a = Some app" "trim app \<noteq> []"
    by blast
  with sample show "(slBotHint d cfg s = []) = (sl_botTokenSource a = Some (js ''none''))"
    and "(slAppHint d cfg s = []) = (sl_appTokenSource a = Some (js ''none''))"
    by (simp_all add: slBotHint_def slAppHint_def formatTokenHint_nonempty)
qed

text \<open>
  With the collaborators \<open>deps_slack_sources\<close> both labels read \<open>none\<times>2\<close>. The sample
  account is \<open>a\<close>: its bot hint is shown, since its bot source tag is absent, and its app
  hint is not, since its app source tag is \<open>none\<close>.
\<close>

theorem slack_sources_none_and_hints_witness:
  "resolveSlackAccount deps_slack_sources demo_cfg (js ''a'')
     \<in> set (slReady deps_slack_sources demo_cfg)
   \<and> sl_botTokenSource (resolveSlackAccount deps_slack_sources demo_cfg (js ''a'')) = None
   \<and> resolveSlackAccount deps_slack_sources demo_cfg (js ''b'')
     \<in> set (slReady deps_slack_sources demo_cfg)
   \<and> sl_appTokenSource (resolveSlackAccount deps_slack_sources demo_cfg (js ''b'')) = None
   \<and> slSample deps_slack_sources demo_cfg
     = Some (resolveSlackAccount deps_slack_sources demo_cfg (js ''a''))
   \<and> (\<exists>n>0. render_part (js ''none'', n) \<in> set (parts (slBotSources deps_slack_sources demo_cfg)))
   \<and> (\<exists>n>0. render_part (js ''none'', n) \<in> set (parts (slAppSources deps_slack_sources demo_cfg)))
   \<and> label (slBotSources deps_slack_sources demo_cfg) = js ''none'' @ [times_sign] @ js ''2''
   \<and> label (slAppSources deps_slack_sources demo_cfg) = js ''none'' @ [times_sign] @ js ''2''
   \<and> slBotHint deps_slack_sources demo_cfg False \<noteq> []
   \<and> slAppHint deps_slack_sources demo_cfg False = []"
proof -
  have a: "resolveSlackAccount deps_slack_sources demo_cfg (js ''a'')
             \<in> set (slReady deps_slack_sources demo_cfg)"
    and b: "resolveSlackAccount deps_slack_sources demo_cfg (js ''b'')
             \<in> set (slReady deps_slack_sources demo_cfg)"
    by (simp_all add: slack_sources_ready)
  have c: "slSample deps_slack_sources demo_cfg
             = Some (resolveSlackAccount deps_slack_sources demo_cfg (js ''a''))"
    by (simp add: slSample_def slack_sources_ready first_opt_def)
  note ta = slack_sources_none_and_hints
      [of "resolveSlackAccount deps_slack_sources demo_cfg (js ''a'')" deps_slack_sources
          demo_cfg False]
  note tb = slack_sources_none_and_hints
      [of "resolveSlackAccount deps_slack_sources demo_cfg (js ''b'')" deps_slack_sources
          demo_cfg False]
  from ta a slack_sources_tags(1)
  have p: "\<exists>n>0. render_part (js ''none'', n)
                   \<in> set (parts (slBotSources deps_slack_sources demo_cfg))"
    by blast
  from tb b slack_sources_tags(4)
  have q: "\<exists>n>0. render_part (js ''none'', n)
                   \<in> set (parts (slAppSources deps_slack_sources demo_cfg))"
    by blast
  from ta c slack_sources_tags(1)
  have h1: "slBotHint deps_slack_sources demo_cfg False \<noteq> []"
    by simp
  from ta c slack_sources_tags(2)
  have h2: "slAppHint deps_slack_sources demo_cfg False = []"
    by simp
  from a b c p q h1 h2 slack_sources_tags(1,4) slack_sources_labels show ?thesis
    by (intro conjI)
qed


section \<open>The account-count fraction\<close>






















section \<open>Telegram: the token file of a disabled account\<close>

lemma cfg_tg_disabled_account_sel:
  "telegram cfg_tg_disabled_account
     = Some \<lparr> telegram_enabled = None,
              telegram_tokenFile = None,
              telegram_accounts =
                Some [js ''work'' \<mapsto> \<lparr> account_tokenFile = Some (js ''/missing.token'') \<rparr>] \<rparr>"
  by (simp add: cfg_tg_disabled_account_def demo_cfg_def)

lemma deps_tg_disabled_account_sel:
  "listTelegramAccountIds deps_tg_disabled_account cfg = [js ''work'']"
  "resolveTelegramAccount deps_tg_disabled_account cfg i =
            \<lparr> tg_accountId = i, tg_enabled = False,
              tg_token = None, tg_tokenSource = Some (js ''none'') \<rparr>"
  "existsSync deps_tg_disabled_account = existsSync demo_deps"
  by (simp_all add: deps_tg_disabled_account_def)

lemma deps_slack_disabled_partial_sel:
  "listSlackAccountIds deps_slack_disabled_partial cfg = [js ''b'']"
  "resolveSlackAccount deps_slack_disabled_partial cfg i =
            \<lparr> sl_accountId = i, sl_enabled = False,
              sl_botToken = Some (js ''xoxb-1''), sl_appToken = None,
              sl_botTokenSource = Some (js ''config''), sl_appTokenSource = None \<rparr>"
  by (simp_all add: deps_slack_disabled_partial_def)

text \<open>
  Claim C5 says that a row has state \<open>warn\<close> only for an inconsistency of an enabled
  account, and that a Telegram account's missing token file warns only when that account
  is enabled. The Telegram block does not keep to it. With Telegram enabled and the single
  listed account \<open>work\<close> disabled, the account's own token file \<open>/missing.token\<close>, which
  does not exist, gives the Telegram row the state \<open>warn\<close> and the detail
  \<open>token file missing (telegram.accounts.work.tokenFile)\<close>, although no Telegram account
  is enabled. The Slack block, for comparison, looks at enabled accounts only: a single
  disabled account with a bot token and no app token leaves the Slack row at \<open>setup\<close>.
\<close>

theorem telegram_disabled_account_still_warns:
  "provider (rows (buildProvidersTable deps_tg_disabled_account cfg_tg_disabled_account None) ! 1)
     = js ''Telegram''
   \<and> state (rows (buildProvidersTable deps_tg_disabled_account cfg_tg_disabled_account None) ! 1)
     = St_warn
   \<and> detail (rows (buildProvidersTable deps_tg_disabled_account cfg_tg_disabled_account None) ! 1)
     = js ''token file missing (telegram.accounts.work.tokenFile)''
   \<and> listTelegramAccountIds deps_tg_disabled_account cfg_tg_disabled_account = [js ''work'']
   \<and> \<not> tg_enabled (resolveTelegramAccount deps_tg_disabled_account cfg_tg_disabled_account
                      (js ''work''))
   \<and> tgEnabledAccounts deps_tg_disabled_account cfg_tg_disabled_account = []
   \<and> listSlackAccountIds deps_slack_disabled_partial demo_cfg = [js ''b'']
   \<and> \<not> sl_enabled (resolveSlackAccount deps_slack_disabled_partial demo_cfg (js ''b''))
   \<and> truthy (trim_opt (sl_botToken (resolveSlackAccount deps_slack_disabled_partial demo_cfg
                                       (js ''b''))))
   \<and> \<not> truthy (trim_opt (sl_appToken (resolveSlackAccount deps_slack_disabled_partial demo_cfg
                                         (js ''b''))))
   \<and> provider (rows (buildProvidersTable deps_slack_disabled_partial demo_cfg None) ! 3)
     = js ''Slack''
   \<and> state (rows (buildProvidersTable deps_slack_disabled_partial demo_cfg None) ! 3)
     = St_setup"
proof -
  have en: "tgEnabled cfg_tg_disabled_account"
    by (simp add: tgEnabled_def not_disabled_def cfg_tg_disabled_account_sel)
  have files: "tgMissingFiles deps_tg_disabled_account cfg_tg_disabled_account
                 = [js ''telegram.accounts.work.tokenFile'']"
    by (simp add: tgMissingFiles_def tgCheckAccount_def tgGlobalTokenFileExists_def
        existsSyncMaybe_def en cfg_tg_disabled_account_sel deps_tg_disabled_account_sel
        demo_deps_sel string_defs)
  have mis: "tgMisconfigured deps_tg_disabled_account cfg_tg_disabled_account"
    by (simp add: tgMisconfigured_def files)
  have st: "state (telegramRow deps_tg_disabled_account cfg_tg_disabled_account False) = St_warn"
    by (simp add: row_state en mis)
  have det: "detail (telegramRow deps_tg_disabled_account cfg_tg_disabled_account False)
               = js ''token file missing (telegram.accounts.work.tokenFile)''"
    by (simp add: row_detail_telegram en mis files first_rendered_def js_def)
  have ids: "listTelegramAccountIds deps_tg_disabled_account cfg_tg_disabled_account = [js ''work'']"
    by (simp add: deps_tg_disabled_account_sel)
  have off: "\<not> tg_enabled (resolveTelegramAccount deps_tg_disabled_account cfg_tg_disabled_account
                      (js ''work''))"
    by (simp add: deps_tg_disabled_account_sel)
  have none: "tgEnabledAccounts deps_tg_disabled_account cfg_tg_disabled_account = []"
    by (simp add: tgEnabledAccounts_def tgAccounts_def deps_tg_disabled_account_sel)
  have tg: "provider (rows (buildProvidersTable deps_tg_disabled_account cfg_tg_disabled_account None) ! 1)
              = js ''Telegram''
            \<and> state (rows (buildProvidersTable deps_tg_disabled_account cfg_tg_disabled_account None) ! 1)
              = St_warn
            \<and> detail (rows (buildProvidersTable deps_tg_disabled_account cfg_tg_disabled_account None) ! 1)
              = js ''token file missing (telegram.accounts.work.tokenFile)''"
    using st det by (simp add: rows_buildProvidersTable row_provider)
  have sids: "listSlackAccountIds deps_slack_disabled_partial demo_cfg = [js ''b'']"
    by (simp add: deps_slack_disabled_partial_sel)
  have soff: "\<not> sl_enabled (resolveSlackAccount deps_slack_disabled_partial demo_cfg (js ''b''))"
    by (simp add: deps_slack_disabled_partial_sel)
  have sbot: "truthy (trim_opt (sl_botToken (resolveSlackAccount deps_slack_disabled_partial demo_cfg
                                       (js ''b''))))"
    by (simp add: deps_slack_disabled_partial_sel string_defs)
  have sapp: "\<not> truthy (trim_opt (sl_appToken (resolveSlackAccount deps_slack_disabled_partial demo_cfg
                                         (js ''b''))))"
    by (simp add: deps_slack_disabled_partial_sel string_defs)
  have senabled: "slEnabledAccounts deps_slack_disabled_partial demo_cfg = []"
    by (simp add: slEnabledAccounts_def slAccounts_def deps_slack_disabled_partial_sel)
  have sst: "state (slackRow deps_slack_disabled_partial demo_cfg False) = St_setup"
    by (simp add: row_state slEnabled_def not_disabled_def demo_cfg_sel slPartial_def
        slReady_def senabled)
  have sl: "provider (rows (buildProvidersTable deps_slack_disabled_partial demo_cfg None) ! 3)
              = js ''Slack''
            \<and> state (rows (buildProvidersTable deps_slack_disabled_partial demo_cfg None) ! 3)
              = St_setup"
    using sst by (simp add: rows_buildProvidersTable row_provider)
  from tg ids off none sids soff sbot sapp sl show ?thesis
    by (intro conjI) simp_all
qed

end
